theory Spec2Isabelle
  imports Complex_Main "HOL-Library.Multiset"
begin

section \<open>JavaScript numbers\<close>

text \<open>
  A JavaScript number is an IEEE 754 binary64 value. The finite ones are kept by their
  exact value, a rational; \<open>Fin 0\<close> is \<open>+0\<close> and \<open>NegZero\<close> is \<open>-0\<close>. Every
  operation computes the exact result and rounds it to the nearest binary64 value, ties
  to even, as the hardware does.
\<close>

datatype jsnum = NaN | PosInf | NegInf | NegZero | Fin rat

text \<open>The number of digits of a positive integer \<open>a\<close> in base \<open>b\<close>.\<close>

function ndigits :: "int \<Rightarrow> int \<Rightarrow> int" where
  "ndigits b a = (if 0 < a \<and> 1 < b then ndigits b (a div b) + 1 else 0)"
  by pat_completeness auto
termination
  by (relation "measure (\<lambda>(b, a). nat a)") (auto intro!: int_div_less_self)

declare ndigits.simps [simp del]

text \<open>
  \<open>ilog b q\<close> is the exponent of a positive rational in base \<open>b\<close>:
  \<open>b ^ e \<le> q < b ^ (e + 1)\<close>.
\<close>

definition ilog :: "int \<Rightarrow> rat \<Rightarrow> int" where
  "ilog b q = (let d = ndigits b (fst (quotient_of q)) - ndigits b (snd (quotient_of q))
               in if q < of_int b powi d then d - 1 else d)"

definition ilog2 :: "rat \<Rightarrow> int" where
  "ilog2 q = ilog 2 q"

definition round_half_even :: "rat \<Rightarrow> int" where
  "round_half_even q = (let n = \<lfloor>q\<rfloor>; r = q - of_int n in
     if r < 1 / 2 then n else if 1 / 2 < r then n + 1 else if even n then n else n + 1)"

text \<open>
  Rounding a positive rational to binary64: 53 significant bits, the exponent not below
  that of the subnormals (unit \<open>2 ^ -1074\<close>); \<open>None\<close> is overflow. The result may be
  \<open>0\<close> (underflow).
\<close>

definition round_mantissa :: "int \<Rightarrow> int \<Rightarrow> rat option" where
  "round_mantissa e m =
     (if e = 1023 \<and> m = 9007199254740992 then None else Some (of_int m * 2 powi (e - 52)))"

definition round_at :: "int \<Rightarrow> rat \<Rightarrow> rat option" where
  "round_at e q =
     (if 1023 < e then None else round_mantissa e (round_half_even (q / 2 powi (e - 52))))"

definition round_pos :: "rat \<Rightarrow> rat option" where
  "round_pos q = round_at (max (ilog2 q) (- 1022)) q"

definition js_zero :: "bool \<Rightarrow> jsnum" where
  "js_zero neg = (if neg then NegZero else Fin 0)"

definition js_inf :: "bool \<Rightarrow> jsnum" where
  "js_inf neg = (if neg then NegInf else PosInf)"

text \<open>The binary64 value nearest to a nonzero rational.\<close>

definition to_double :: "rat \<Rightarrow> jsnum" where
  "to_double q = (case round_pos \<bar>q\<bar> of
        None \<Rightarrow> js_inf (q < 0)
      | Some r \<Rightarrow> if r = 0 then js_zero (q < 0) else Fin (if q < 0 then - r else r))"

text \<open>A finite value of the model is a number if rounding leaves it as it is.\<close>

fun is_double :: "jsnum \<Rightarrow> bool" where
  "is_double (Fin q) = (q = 0 \<or> round_pos \<bar>q\<bar> = Some \<bar>q\<bar>)"
| "is_double _ = True"

fun is_negative :: "jsnum \<Rightarrow> bool" where
  "is_negative NegInf = True"
| "is_negative NegZero = True"
| "is_negative (Fin q) = (q < 0)"
| "is_negative _ = False"

fun is_zero :: "jsnum \<Rightarrow> bool" where
  "is_zero NegZero = True"
| "is_zero (Fin q) = (q = 0)"
| "is_zero _ = False"

fun is_infinite :: "jsnum \<Rightarrow> bool" where
  "is_infinite PosInf = True"
| "is_infinite NegInf = True"
| "is_infinite _ = False"

fun rat_of :: "jsnum \<Rightarrow> rat" where
  "rat_of (Fin q) = q"
| "rat_of _ = 0"

text \<open>The operator \<^verbatim>\<open>/\<close> on numbers.\<close>

definition js_div :: "jsnum \<Rightarrow> jsnum \<Rightarrow> jsnum" where
  "js_div x y =
     (let neg = (is_negative x \<noteq> is_negative y) in
      if x = NaN \<or> y = NaN then NaN
      else if is_infinite x then (if is_infinite y then NaN else js_inf neg)
      else if is_infinite y then js_zero neg
      else if is_zero y then (if is_zero x then NaN else js_inf neg)
      else if is_zero x then js_zero neg
      else to_double (rat_of x / rat_of y))"

text \<open>The operator \<^verbatim>\<open>*\<close> on numbers.\<close>

definition js_mul :: "jsnum \<Rightarrow> jsnum \<Rightarrow> jsnum" where
  "js_mul x y =
     (let neg = (is_negative x \<noteq> is_negative y) in
      if x = NaN \<or> y = NaN then NaN
      else if is_infinite x \<or> is_infinite y then
        (if is_zero x \<or> is_zero y then NaN else js_inf neg)
      else if is_zero x \<or> is_zero y then js_zero neg
      else to_double (rat_of x * rat_of y))"

text \<open>The operator \<^verbatim>\<open>-\<close> on numbers; an exact difference of zero is \<open>+0\<close> unless it is \<open>-0 - +0\<close>.\<close>

definition js_sub :: "jsnum \<Rightarrow> jsnum \<Rightarrow> jsnum" where
  "js_sub x y =
     (if x = NaN \<or> y = NaN then NaN
      else if is_infinite x then (if y = x then NaN else x)
      else if is_infinite y then js_inf (\<not> is_negative y)
      else if rat_of x = rat_of y then js_zero (x = NegZero \<and> y = Fin 0)
      else to_double (rat_of x - rat_of y))"

text \<open>The comparisons \<^verbatim>\<open><\<close>, \<^verbatim>\<open><=\<close> and \<^verbatim>\<open>></\<close> on numbers: false as soon as one side is NaN.\<close>

fun js_lt :: "jsnum \<Rightarrow> jsnum \<Rightarrow> bool" where
  "js_lt NaN _ = False"
| "js_lt _ NaN = False"
| "js_lt PosInf _ = False"
| "js_lt _ PosInf = True"
| "js_lt _ NegInf = False"
| "js_lt NegInf _ = True"
| "js_lt x y = (rat_of x < rat_of y)"

definition js_gt :: "jsnum \<Rightarrow> jsnum \<Rightarrow> bool" where
  "js_gt x y = js_lt y x"

definition js_le :: "jsnum \<Rightarrow> jsnum \<Rightarrow> bool" where
  "js_le x y = (x \<noteq> NaN \<and> y \<noteq> NaN \<and> \<not> js_lt y x)"

text \<open>\<^verbatim>\<open>Math.max\<close> of two numbers: NaN if either is, and \<open>+0\<close> above \<open>-0\<close>.\<close>

definition Math_max :: "jsnum \<Rightarrow> jsnum \<Rightarrow> jsnum" where
  "Math_max x y =
     (if x = NaN \<or> y = NaN then NaN
      else if js_lt x y then y
      else if js_lt y x then x
      else if x = NegZero then y else x)"

text \<open>ToBoolean of a number: \<open>+0\<close>, \<open>-0\<close> and NaN are falsy.\<close>

definition num_truthy :: "jsnum \<Rightarrow> bool" where
  "num_truthy x = (x \<noteq> NaN \<and> \<not> is_zero x)"

section \<open>Numbers and strings\<close>

text \<open>
  A JavaScript string is modelled by a \<open>string\<close>, one \<open>char\<close> for each code unit
  (code units below 256 only). \<open>dec n\<close> is the decimal numeral of \<open>n \<ge> 0\<close>.
\<close>

definition digit_char :: "nat \<Rightarrow> char" where
  "digit_char d = char_of (48 + d)"

function dec :: "int \<Rightarrow> string" where
  "dec n = (if n < 10 then [digit_char (nat n)] else dec (n div 10) @ [digit_char (nat (n mod 10))])"
  by pat_completeness auto
termination
  by (relation "measure nat") (auto intro!: int_div_less_self)

declare dec.simps [simp del]

definition ilog10 :: "rat \<Rightarrow> int" where
  "ilog10 q = ilog 10 q"

text \<open>
  Number::toString, radix 10, of a positive finite \<open>x\<close>: the digits \<open>s\<close>, their count
  \<open>k\<close> and the exponent \<open>n\<close> with \<open>s * 10 ^ (n - k)\<close> rounding to \<open>x\<close> and \<open>k\<close> as small as
  possible; of two candidates the one nearer to \<open>x\<close>. Seventeen digits always suffice.
\<close>

definition shortest_candidates :: "rat \<Rightarrow> int \<Rightarrow> (int \<times> int) list" where
  "shortest_candidates x k =
     (let n = ilog10 x + 1;
          p = 10 powi (n - k);
          lo = \<lfloor>x / p\<rfloor>;
          hi = (if lo + 1 = 10 ^ nat k then (10 ^ nat (k - 1), n + 1) else (lo + 1, n))
      in filter (\<lambda>(s, m). to_double (of_int s * 10 powi (m - k)) = Fin x) [(lo, n), hi])"

fun shortest_digits :: "nat \<Rightarrow> rat \<Rightarrow> int \<Rightarrow> int \<times> int \<times> int"
  and choose_digits :: "nat \<Rightarrow> rat \<Rightarrow> int \<Rightarrow> (int \<times> int) list \<Rightarrow> int \<times> int \<times> int" where
  "shortest_digits 0 x k = (\<lfloor>x / 10 powi (ilog10 x + 1 - k)\<rfloor>, k, ilog10 x + 1)"
| "shortest_digits (Suc fuel) x k = choose_digits fuel x k (shortest_candidates x k)"
| "choose_digits fuel x k [] = shortest_digits fuel x (k + 1)"
| "choose_digits fuel x k [(s, n)] = (s, k, n)"
| "choose_digits fuel x k ((s, n) # (s', n') # _) =
     (if \<bar>of_int s * 10 powi (n - k) - x\<bar> < \<bar>of_int s' * 10 powi (n' - k) - x\<bar>
         \<or> (\<bar>of_int s * 10 powi (n - k) - x\<bar> = \<bar>of_int s' * 10 powi (n' - k) - x\<bar> \<and> even s)
      then (s, k, n) else (s', k, n'))"

definition toString_pos :: "rat \<Rightarrow> string" where
  "toString_pos x =
     (let (s, k, n) = shortest_digits 17 x 1;
          ds = dec s
      in if k \<le> n \<and> n \<le> 21 then ds @ replicate (nat (n - k)) CHR ''0''
         else if 0 < n \<and> n \<le> 21 then take (nat n) ds @ ''.'' @ drop (nat n) ds
         else if - 6 < n \<and> n \<le> 0 then ''0.'' @ replicate (nat (- n)) CHR ''0'' @ ds
         else (if k = 1 then ds else take 1 ds @ ''.'' @ drop 1 ds)
              @ ''e'' @ (if n - 1 < 0 then ''-'' else ''+'') @ dec \<bar>n - 1\<bar>)"

fun Number_toString :: "jsnum \<Rightarrow> string" where
  "Number_toString NaN = ''NaN''"
| "Number_toString PosInf = ''Infinity''"
| "Number_toString NegInf = ''-Infinity''"
| "Number_toString NegZero = ''0''"
| "Number_toString (Fin q) =
     (if q = 0 then ''0'' else if q < 0 then ''-'' @ toString_pos (- q) else toString_pos q)"

text \<open>
  \<^verbatim>\<open>x.toFixed(f)\<close>: for a finite \<open>x\<close> below \<open>10 ^ 21\<close> in magnitude, the integer \<open>n\<close>
  nearest to \<open>x * 10 ^ f\<close> (the larger of two), written with \<open>f\<close> digits after the point.
\<close>

definition toFixed_digits :: "rat \<Rightarrow> nat \<Rightarrow> string" where
  "toFixed_digits x f =
     (let n = \<lfloor>x * 10 ^ f + 1 / 2\<rfloor>;
          m = dec n
      in if f = 0 then m
         else (let m' = replicate (f + 1 - length m) CHR ''0'' @ m;
                   k = length m'
               in take (k - f) m' @ ''.'' @ drop (k - f) m'))"

fun toFixed :: "jsnum \<Rightarrow> nat \<Rightarrow> string" where
  "toFixed (Fin q) f =
     (if 10 ^ 21 \<le> \<bar>q\<bar> then Number_toString (Fin q)
      else (if q < 0 then ''-'' else []) @ toFixed_digits \<bar>q\<bar> f)"
| "toFixed NegZero f = toFixed_digits 0 f"
| "toFixed x f = Number_toString x"

text \<open>
  StringToNumber, which the unary \<^verbatim>\<open>+\<close> and \<^verbatim>\<open>Number(...)\<close> apply to a string: white
  space is trimmed, the empty string is \<open>+0\<close>, a StringNumericLiteral has its value
  rounded, anything else is NaN.
\<close>

definition is_ws :: "char \<Rightarrow> bool" where
  "is_ws c = (of_char c \<in> {9, 10, 11, 12, 13, 32, 160 :: nat})"

definition is_digit :: "char \<Rightarrow> bool" where
  "is_digit c = (48 \<le> (of_char c :: nat) \<and> (of_char c :: nat) \<le> 57)"

definition trim :: "string \<Rightarrow> string" where
  "trim s = rev (dropWhile is_ws (rev (dropWhile is_ws s)))"

definition digits_val :: "string \<Rightarrow> int" where
  "digits_val ds = foldl (\<lambda>a c. 10 * a + (of_char c - 48)) 0 ds"

definition hex_val :: "char \<Rightarrow> int option" where
  "hex_val c = (let n = (of_char c :: int) in
     if 48 \<le> n \<and> n \<le> 57 then Some (n - 48)
     else if 65 \<le> n \<and> n \<le> 70 then Some (n - 55)
     else if 97 \<le> n \<and> n \<le> 102 then Some (n - 87)
     else None)"

text \<open>The value of a numeral in base \<open>b\<close>, or \<open>None\<close> when a character is no digit of it.\<close>

fun radix_val :: "int \<Rightarrow> int \<Rightarrow> string \<Rightarrow> int option" where
  "radix_val b a [] = Some a"
| "radix_val b a (c # cs) =
     (case hex_val c of
        None \<Rightarrow> None
      | Some d \<Rightarrow> if d < b then radix_val b (b * a + d) cs else None)"

text \<open>ExponentPart: \<open>e\<close> or \<open>E\<close>, an optional sign, digits.\<close>

definition exponent_part :: "string \<Rightarrow> int option" where
  "exponent_part s =
     (case s of
        [] \<Rightarrow> Some 0
      | c # r \<Rightarrow>
          if c \<noteq> CHR ''e'' \<and> c \<noteq> CHR ''E'' then None
          else (let (neg, ds) = (case r of
                                   [] \<Rightarrow> (False, [])
                                 | d # r' \<Rightarrow> if d = CHR ''-'' then (True, r')
                                             else if d = CHR ''+'' then (False, r')
                                             else (False, r))
                in if ds = [] \<or> \<not> list_all is_digit ds then None
                   else Some (if neg then - digits_val ds else digits_val ds)))"

text \<open>StrUnsignedDecimalLiteral other than \<open>Infinity\<close>: its mathematical value.\<close>

definition unsigned_decimal :: "string \<Rightarrow> rat option" where
  "unsigned_decimal s =
     (let ip = takeWhile is_digit s;
          r = dropWhile is_digit s;
          (fp, r') = (case r of
                        [] \<Rightarrow> ([], [])
                      | c # t \<Rightarrow> if c = CHR ''.'' then (takeWhile is_digit t, dropWhile is_digit t)
                                  else ([], r))
      in if ip = [] \<and> fp = [] then None
         else (case exponent_part r' of
                 None \<Rightarrow> None
               | Some e \<Rightarrow>
                   Some ((of_int (digits_val ip) + of_int (digits_val fp) / 10 ^ length fp)
                         * 10 powi e)))"

definition signed_value :: "bool \<Rightarrow> rat \<Rightarrow> jsnum" where
  "signed_value neg v = (if v = 0 then js_zero neg else to_double (if neg then - v else v))"

definition str_decimal :: "string \<Rightarrow> jsnum" where
  "str_decimal s =
     (let (neg, u) = (case s of
                        [] \<Rightarrow> (False, [])
                      | c # t \<Rightarrow> if c = CHR ''-'' then (True, t)
                                  else if c = CHR ''+'' then (False, t)
                                  else (False, s))
      in if u = ''Infinity'' then js_inf neg
         else (case unsigned_decimal u of
                 None \<Rightarrow> NaN
               | Some v \<Rightarrow> signed_value neg v))"

definition non_decimal :: "string \<Rightarrow> jsnum option" where
  "non_decimal s =
     (case s of
        z # x # ds \<Rightarrow>
          (let b = (if x = CHR ''x'' \<or> x = CHR ''X'' then 16
                    else if x = CHR ''o'' \<or> x = CHR ''O'' then 8
                    else if x = CHR ''b'' \<or> x = CHR ''B'' then 2 else (0::int))
           in if z \<noteq> CHR ''0'' \<or> b = 0 then None
              else if ds = [] then Some NaN
              else (case radix_val b 0 ds of
                      None \<Rightarrow> Some NaN
                    | Some v \<Rightarrow> Some (signed_value False (of_int v))))
      | _ \<Rightarrow> None)"

definition StringToNumber :: "string \<Rightarrow> jsnum" where
  "StringToNumber str =
     (let s = trim str in
      if s = [] then Fin 0
      else (case non_decimal s of
              Some v \<Rightarrow> v
            | None \<Rightarrow> str_decimal s))"

section \<open>Values, objects and responses\<close>

text \<open>
  A value whose type the code tests at run time before it uses it. An object is the list
  of its own properties in their order of creation, which is the order of
  \<^verbatim>\<open>Object.entries\<close>.
\<close>

datatype jsval = VUndefined | VNull | VBool bool | VNum jsnum | VStr string

type_synonym object = "(string \<times> jsval) list"

text \<open>ToString, which a template literal applies to each of its substitutions.\<close>

fun ToString :: "jsval \<Rightarrow> string" where
  "ToString VUndefined = ''undefined''"
| "ToString VNull = ''null''"
| "ToString (VBool b) = (if b then ''true'' else ''false'')"
| "ToString (VNum n) = Number_toString n"
| "ToString (VStr s) = s"

text \<open>Writing a property: an existing key keeps its place, a new key goes last.\<close>

fun set_property :: "object \<Rightarrow> string \<Rightarrow> jsval \<Rightarrow> object" where
  "set_property [] k v = [(k, v)]"
| "set_property ((k', v') # ob) k v =
     (if k' = k then (k, v) # ob else (k', v') # set_property ob k v)"

text \<open>The object literal \<^verbatim>\<open>{ ...a, ...b }\<close>: the properties of \<open>a\<close>, then those of \<open>b\<close> written over them.\<close>

definition spread :: "object \<Rightarrow> object \<Rightarrow> object" where
  "spread a b = foldl (\<lambda>ob (k, v). set_property ob k v) a b"

fun join :: "string \<Rightarrow> string list \<Rightarrow> string" where
  "join sep [] = []"
| "join sep [x] = x"
| "join sep (x # y # ys) = x @ sep @ join sep (y # ys)"

text \<open>
  The outcome of an awaited HTTP call: the promise is rejected, or it is resolved with
  what the server sent. A body that is expected to be an array is \<open>None\<close> when it is
  not one.
\<close>

datatype 'a response = Rejected string | Resolved 'a

datatype error = AxiosError string | TypeError | SyntaxError | Error string

section \<open>services/fetchStocks\<close>

record RawStockData =
  symbol :: string
  date :: string
  revenueAvg :: jsnum
  ebitdaAvg :: jsnum
  netIncomeAvg :: jsnum
  sgaExpenseAvg :: jsnum
  epsAvg :: jsnum
  numAnalystsRevenue :: jsnum
  numAnalystsEps :: jsnum

text \<open>
  An element of the analyst-estimates answer as it arrives: \<^verbatim>\<open>epsAvg\<close> and
  \<^verbatim>\<open>numAnalystsEps\<close> are of unknown type until \<^verbatim>\<open>getAnalystSentiment\<close> has tested them.
\<close>

record Estimate =
  symbol :: string
  date :: string
  revenueAvg :: jsnum
  ebitdaAvg :: jsnum
  netIncomeAvg :: jsnum
  sgaExpenseAvg :: jsnum
  epsAvg :: jsval
  numAnalystsRevenue :: jsnum
  numAnalystsEps :: jsval

record PriceTargetSummary =
  allTimeAvgPriceTarget :: "jsnum option"

record KeyMetrics =
  peRatioTTM :: jsval
  pbRatioTTM :: jsval
  debtToEquityTTM :: jsval

text \<open>
  An element of the screener answer: the properties the pipeline reads. The answer is
  untyped, and \<open>price\<close> is the number that the division in the loop makes of the
  property: NaN when the element has no price or one that is not numeric.
\<close>

record Candidate =
  symbol :: string
  companyName :: string
  price :: jsnum
  isEtf :: bool
  isFund :: bool

text \<open>\<^verbatim>\<open>Partial<Stock>\<close> as \<^verbatim>\<open>getMetrics\<close> returns it; an absent property reads \<open>VUndefined\<close>.\<close>

record Metrics =
  pe :: jsval
  pb :: jsval
  debtToEquity :: jsval

record StockInsights =
  period :: string
  eps :: jsnum
  ebitdaMargin :: jsnum
  netMargin :: jsnum
  sgaToRevenueRatio :: jsnum
  analystCount :: jsnum
  summary :: string

record Stock = StockInsights +
  symbol :: string
  companyName :: string
  price :: jsnum
  pe :: jsnum
  pb :: jsnum
  targetPrice :: "jsnum option"
  rsi :: jsnum
  debtToEquity :: jsnum

definition extractKeyInsights :: "RawStockData \<Rightarrow> StockInsights" where
  "extractKeyInsights data =
     (let ebitdaMargin' =
            StringToNumber (toFixed (js_div (RawStockData.ebitdaAvg data) (RawStockData.revenueAvg data)) 4);
          netMargin' =
            StringToNumber (toFixed (js_div (RawStockData.netIncomeAvg data) (RawStockData.revenueAvg data)) 4);
          sgaToRevenueRatio' =
            StringToNumber (toFixed (js_div (RawStockData.sgaExpenseAvg data) (RawStockData.revenueAvg data)) 4);
          analystCount' =
            Math_max (RawStockData.numAnalystsRevenue data) (RawStockData.numAnalystsEps data)
      in \<lparr> period = RawStockData.date data,
           eps = StringToNumber (toFixed (RawStockData.epsAvg data) 2),
           ebitdaMargin = ebitdaMargin',
           netMargin = netMargin',
           sgaToRevenueRatio = sgaToRevenueRatio',
           analystCount = analystCount',
           summary = ''EPS: $'' @ toFixed (RawStockData.epsAvg data) 2
             @ '', EBITDA Margin: '' @ toFixed (js_mul ebitdaMargin' (Fin 100)) 1
             @ ''%, Net Margin: '' @ toFixed (js_mul netMargin' (Fin 100)) 1
             @ ''%, SG&A: '' @ toFixed (js_mul sgaToRevenueRatio' (Fin 100)) 1
             @ ''%, Analysts: '' @ Number_toString analystCount' \<rparr>)"

text \<open>
  The data provider: the key read from the environment when the module is loaded, and
  what \<^verbatim>\<open>axios.get\<close> gives for a URL at each of the four endpoints.
\<close>

record fmp =
  FMP_API_KEY :: string
  company_screener :: "string \<Rightarrow> Candidate list option response"
  price_target_summary :: "string \<Rightarrow> PriceTargetSummary list option response"
  analyst_estimates :: "string \<Rightarrow> Estimate list option response"
  key_metrics_ttm :: "string \<Rightarrow> KeyMetrics list option response"

definition no_metrics :: Metrics where
  "no_metrics = \<lparr> Metrics.pe = VUndefined, pb = VUndefined, debtToEquity = VUndefined \<rparr>"

definition getMetrics :: "fmp \<Rightarrow> string \<Rightarrow> Metrics" where
  "getMetrics api symb =
     (case key_metrics_ttm api
             (''https://financialmodelingprep.com/api/v3/key-metrics-ttm/'' @ symb
              @ ''?apikey='' @ FMP_API_KEY api) of
        Rejected err \<Rightarrow> no_metrics
      | Resolved None \<Rightarrow> no_metrics
      | Resolved (Some []) \<Rightarrow> no_metrics
      | Resolved (Some (metrics # _)) \<Rightarrow>
          \<lparr> Metrics.pe = peRatioTTM metrics,
            pb = pbRatioTTM metrics,
            debtToEquity = debtToEquityTTM metrics \<rparr>)"

definition getRsi :: "string \<Rightarrow> jsnum option" where
  "getRsi symb = None"

definition as_RawStockData :: "Estimate \<Rightarrow> jsnum \<Rightarrow> jsnum \<Rightarrow> RawStockData" where
  "as_RawStockData e epsAvg' numAnalystsEps' =
     \<lparr> RawStockData.symbol = Estimate.symbol e,
       date = Estimate.date e,
       revenueAvg = Estimate.revenueAvg e,
       ebitdaAvg = Estimate.ebitdaAvg e,
       netIncomeAvg = Estimate.netIncomeAvg e,
       sgaExpenseAvg = Estimate.sgaExpenseAvg e,
       epsAvg = epsAvg',
       numAnalystsRevenue = Estimate.numAnalystsRevenue e,
       numAnalystsEps = numAnalystsEps' \<rparr>"

text \<open>\<open>None\<close> is the result \<^verbatim>\<open>false\<close>.\<close>

definition getAnalystSentiment :: "fmp \<Rightarrow> string \<Rightarrow> StockInsights option" where
  "getAnalystSentiment api symb =
     (case analyst_estimates api
             (''https://financialmodelingprep.com/stable/analyst-estimates?symbol='' @ symb
              @ ''&period=annual&page=0&limit=10&apikey='' @ FMP_API_KEY api) of
        Rejected err \<Rightarrow> None
      | Resolved None \<Rightarrow> None
      | Resolved (Some []) \<Rightarrow> None
      | Resolved (Some (latestEstimate # _)) \<Rightarrow>
          (case (Estimate.epsAvg latestEstimate, Estimate.numAnalystsEps latestEstimate) of
             (VNum epsAvg', VNum numAnalystsEps') \<Rightarrow>
               Some (extractKeyInsights (as_RawStockData latestEstimate epsAvg' numAnalystsEps'))
           | _ \<Rightarrow> None))"

text \<open>\<open>None\<close> is the result \<^verbatim>\<open>null\<close>.\<close>

definition getTargetPrice :: "fmp \<Rightarrow> string \<Rightarrow> jsnum option" where
  "getTargetPrice api symb =
     (case price_target_summary api
             (''https://financialmodelingprep.com/stable/price-target-summary?symbol='' @ symb
              @ ''&apikey='' @ FMP_API_KEY api) of
        Rejected err \<Rightarrow> None
      | Resolved None \<Rightarrow> None
      | Resolved (Some []) \<Rightarrow> None
      | Resolved (Some (summary' # _)) \<Rightarrow>
          (case allTimeAvgPriceTarget summary' of
             None \<Rightarrow> None
           | Some t \<Rightarrow> if num_truthy t \<and> js_gt t (Fin 0) then Some t else None))"

definition defaultParams :: object where
  "defaultParams =
     [(''isActivelyTrading'', VBool True), (''limit'', VNum (Fin 400)), (''exchange'', VStr ''NASDAQ'')]"

definition finalParams :: "object \<Rightarrow> object" where
  "finalParams params = spread defaultParams params"

definition buildQueryParams :: "object \<Rightarrow> string" where
  "buildQueryParams params =
     join ''&'' (map (\<lambda>(key, val). key @ ''='' @ ToString val) (finalParams params))"

text \<open>
  The body of the \<^verbatim>\<open>for\<close> loop of \<^verbatim>\<open>fetchUndervaluedStocks\<close> over the filtered
  candidates, with the array \<^verbatim>\<open>enriched\<close> as accumulator; each \<^verbatim>\<open>continue\<close> goes on
  with the accumulator unchanged.
\<close>

fun enrich :: "fmp \<Rightarrow> Candidate list \<Rightarrow> Stock list \<Rightarrow> Stock list" where
  "enrich api [] enriched = enriched"
| "enrich api (stock # rest) enriched =
     (case getTargetPrice api (Candidate.symbol stock) of
        None \<Rightarrow> enrich api rest enriched
      | Some targetPrice' \<Rightarrow>
          if \<not> num_truthy targetPrice' \<or> js_le (js_div targetPrice' (Candidate.price stock)) (Fin (3 / 2))
          then enrich api rest enriched
          else (case getAnalystSentiment api (Candidate.symbol stock) of
                  None \<Rightarrow> enrich api rest enriched
                | Some analystSentiment \<Rightarrow>
                    (let metrics = getMetrics api (Candidate.symbol stock) in
                     case (Metrics.pe metrics, Metrics.pb metrics, Metrics.debtToEquity metrics) of
                       (VNum pe', VNum pb', VNum debtToEquity') \<Rightarrow>
                         enrich api rest (enriched @
                           [\<lparr> period = period analystSentiment,
                              eps = eps analystSentiment,
                              ebitdaMargin = ebitdaMargin analystSentiment,
                              netMargin = netMargin analystSentiment,
                              sgaToRevenueRatio = sgaToRevenueRatio analystSentiment,
                              analystCount = analystCount analystSentiment,
                              summary = summary analystSentiment,
                              symbol = Candidate.symbol stock,
                              companyName = Candidate.companyName stock,
                              price = Candidate.price stock,
                              pe = pe',
                              pb = pb',
                              targetPrice = Some targetPrice',
                              rsi = (case getRsi (Candidate.symbol stock) of None \<Rightarrow> Fin 50 | Some r \<Rightarrow> r),
                              debtToEquity = debtToEquity' \<rparr>])
                     | _ \<Rightarrow> enrich api rest enriched)))"

definition screenerUrl :: "fmp \<Rightarrow> object \<Rightarrow> string" where
  "screenerUrl api screenerOptions =
     ''https://financialmodelingprep.com/stable/company-screener?''
       @ buildQueryParams screenerOptions @ ''&apikey='' @ FMP_API_KEY api"

definition fetchUndervaluedStocks :: "fmp \<Rightarrow> object \<Rightarrow> error + Stock list" where
  "fetchUndervaluedStocks api screenerOptions =
     (case company_screener api (screenerUrl api screenerOptions) of
        Rejected err \<Rightarrow> Inl (AxiosError err)
      | Resolved None \<Rightarrow> Inl TypeError
      | Resolved (Some data) \<Rightarrow>
          Inr (enrich api (filter (\<lambda>s. \<not> isEtf s \<and> \<not> isFund s) data) []))"

section \<open>services/aiScoring\<close>

record ScoredStock =
  symbol :: string
  score :: jsnum
  explanation :: string

text \<open>What \<^verbatim>\<open>JSON.parse\<close> returns.\<close>

datatype json =
    JNull
  | JBool bool
  | JNum jsnum
  | JStr string
  | JArr "json list"
  | JObj "(string \<times> json) list"

text \<open>The part of a chat completion that \<^verbatim>\<open>scoreAndExplain\<close> reads.\<close>

record ChatMessage =
  content :: "string option"

record Choice =
  message :: "ChatMessage option"

record ChatCompletion =
  choices :: "Choice list"

text \<open>
  The regular expression \<^verbatim>\<open>/\[\s*{[\s\S]*?}\s*]/\<close>. The class \<^verbatim>\<open>\s\<close> is \<open>is_ws\<close> on the
  code units of the model. \<open>close_at\<close> matches \<^verbatim>\<open>}\s*]\<close> at the head of a string and
  gives the length of the match; \<open>lazy_close\<close> matches \<^verbatim>\<open>[\s\S]*?}\s*]\<close> there, the lazy
  star taking as few characters as it can; \<open>match_here\<close> matches the whole expression at
  the head; \<open>regex_match\<close> is \<^verbatim>\<open>String.prototype.match\<close>, which takes the first position
  with a match.
\<close>

definition close_at :: "string \<Rightarrow> nat option" where
  "close_at s =
     (case s of
        [] \<Rightarrow> None
      | c # r \<Rightarrow>
          if c \<noteq> CHR ''}'' then None
          else (case dropWhile is_ws r of
                  [] \<Rightarrow> None
                | d # _ \<Rightarrow> if d = CHR '']'' then Some (length (takeWhile is_ws r) + 2) else None))"

fun lazy_close :: "string \<Rightarrow> nat option" where
  "lazy_close [] = None"
| "lazy_close (c # cs) =
     (case close_at (c # cs) of
        Some n \<Rightarrow> Some n
      | None \<Rightarrow> map_option Suc (lazy_close cs))"

definition match_here :: "string \<Rightarrow> string option" where
  "match_here s =
     (case s of
        [] \<Rightarrow> None
      | c # r \<Rightarrow>
          if c \<noteq> CHR ''['' then None
          else (case dropWhile is_ws r of
                  [] \<Rightarrow> None
                | d # r' \<Rightarrow>
                    if d \<noteq> CHR ''{'' then None
                    else map_option (\<lambda>n. take (length (takeWhile is_ws r) + 2 + n) s)
                           (lazy_close r')))"

fun regex_match :: "string \<Rightarrow> string option" where
  "regex_match [] = match_here []"
| "regex_match (c # cs) =
     (case match_here (c # cs) of
        Some m \<Rightarrow> Some m
      | None \<Rightarrow> regex_match cs)"

text \<open>
  \<^verbatim>\<open>scoreAndExplain\<close>, given the chat completion call (as a function of the stocks, which
  determine the prompt) and \<^verbatim>\<open>JSON.parse\<close> (\<open>None\<close> where it throws a SyntaxError). The
  result of \<^verbatim>\<open>JSON.parse\<close> is returned as it is: the cast to \<^verbatim>\<open>ScoredStock[]\<close> is a
  compile-time annotation.
\<close>

definition scoreAndExplain ::
  "(Stock list \<Rightarrow> ChatCompletion response) \<Rightarrow> (string \<Rightarrow> json option) \<Rightarrow> Stock list \<Rightarrow> error + json" where
  "scoreAndExplain create JSON_parse stocks =
     (case create stocks of
        Rejected err \<Rightarrow> Inl (AxiosError err)
      | Resolved res \<Rightarrow>
          (case choices res of
             [] \<Rightarrow> Inl TypeError
           | choice # _ \<Rightarrow>
               (case (case message choice of None \<Rightarrow> None | Some m \<Rightarrow> content m) of
                  None \<Rightarrow> Inl (Error ''No content received from OpenAI.'')
                | Some content' \<Rightarrow>
                    if content' = [] then Inl (Error ''No content received from OpenAI.'')
                    else (case regex_match content' of
                            None \<Rightarrow> Inl (Error ''Could not find a valid JSON array in the response.'')
                          | Some jsonMatch \<Rightarrow>
                              (case JSON_parse jsonMatch of
                                 None \<Rightarrow> Inl SyntaxError
                               | Some parsed \<Rightarrow> Inr parsed)))))"

section \<open>services/notifyDiscord\<close>

datatype log =
    WarnNoStocks
  | WarnUnexpectedStatus nat
  | LogSent
  | ErrorSendFailed string

text \<open>
  What becomes of a request: no response reaches the client (a transport failure, with
  its message), or a response arrives, with its status.
\<close>

datatype delivery = NoResponse string | Response nat

text \<open>
  The chat platform: token and channel read from the environment when the module is
  loaded, and what becomes of a request with a URL, a payload and an authorization
  header.
\<close>

record discord =
  DISCORD_BOT_TOKEN :: string
  DISCORD_CHANNEL_ID :: string
  deliver :: "string \<Rightarrow> string \<Rightarrow> string \<Rightarrow> delivery"

text \<open>
  \<^verbatim>\<open>axios.post\<close> as the library documents it when no \<^verbatim>\<open>validateStatus\<close> is configured,
  and the code configures none: the promise is resolved with a response whose status is
  in 200..299, and rejected with any other response as it is with no response.
\<close>

definition axios_post :: "delivery \<Rightarrow> nat response" where
  "axios_post r =
     (case r of
        NoResponse err \<Rightarrow> Rejected err
      | Response status \<Rightarrow>
          if 200 \<le> status \<and> status < 300 then Resolved status
          else Rejected (''Request failed with status code '' @ dec (int status)))"

text \<open>
  The message text. The characters of the source outside ASCII (a dash, an emoji) are
  written as their UTF-8 bytes.
\<close>

fun message_lines :: "nat \<Rightarrow> ScoredStock list \<Rightarrow> string list" where
  "message_lines i [] = []"
| "message_lines i (s # ss) =
     (''**'' @ dec (int (i + 1)) @ ''. '' @ ScoredStock.symbol s @ ''** ''
        @ [CHR 0xE2, CHR 0x80, CHR 0x94] @ '' Score: **'' @ toFixed (score s) 2 @ ''**''
        @ [CHR 0x0A] @ ''*'' @ explanation s @ ''*'')
     # message_lines (i + 1) ss"

definition payload :: "ScoredStock list \<Rightarrow> string" where
  "payload topStocks =
     [CHR 0xF0, CHR 0x9F, CHR 0x93, CHR 0x88] @ '' **Top '' @ dec (int (length topStocks))
       @ '' Undervalued Stocks Today**'' @ [CHR 0x0A, CHR 0x0A]
       @ join [CHR 0x0A, CHR 0x0A] (message_lines 0 topStocks)"

text \<open>The result is what was written to the console and how the function ended.\<close>

definition notifyDiscord :: "discord \<Rightarrow> ScoredStock list \<Rightarrow> log list \<times> (error + unit)" where
  "notifyDiscord d topStocks =
     (if topStocks = [] then ([WarnNoStocks], Inr ())
      else (case axios_post (deliver d
                   (''https://discord.com/api/v10/channels/'' @ DISCORD_CHANNEL_ID d @ ''/messages'')
                   (payload topStocks)
                   (''Bot '' @ DISCORD_BOT_TOKEN d)) of
              Rejected err \<Rightarrow> ([ErrorSendFailed err], Inl (AxiosError err))
            | Resolved status \<Rightarrow>
                if status \<noteq> 200 \<and> status \<noteq> 201 then ([WarnUnexpectedStatus status], Inr ())
                else ([LogSent], Inr ())))"

section \<open>index\<close>

text \<open>
  \<^verbatim>\<open>Array.prototype.sort\<close> with a comparison function. The comparison gives a number;
  an element goes behind another when the number is above zero, and NaN counts as zero.
  The sort is stable. It is modelled by insertion from the right, which for a comparison
  that orders the elements consistently gives the one array every engine returns.
\<close>

fun insert_by :: "('a \<Rightarrow> 'a \<Rightarrow> jsnum) \<Rightarrow> 'a \<Rightarrow> 'a list \<Rightarrow> 'a list" where
  "insert_by cmp x [] = [x]"
| "insert_by cmp x (y # ys) =
     (if js_gt (cmp x y) (Fin 0) then y # insert_by cmp x ys else x # y # ys)"

definition Array_sort :: "('a \<Rightarrow> 'a \<Rightarrow> jsnum) \<Rightarrow> 'a list \<Rightarrow> 'a list" where
  "Array_sort cmp xs = foldr (insert_by cmp) xs []"

text \<open>\<^verbatim>\<open>xs.slice(0, n)\<close>.\<close>

definition slice0 :: "nat \<Rightarrow> 'a list \<Rightarrow> 'a list" where
  "slice0 n xs = take n xs"

text \<open>The comparison function \<^verbatim>\<open>(a, b) => b.score - a.score\<close>.\<close>

definition by_score :: "ScoredStock \<Rightarrow> ScoredStock \<Rightarrow> jsnum" where
  "by_score a b = js_sub (score b) (score a)"

text \<open>
  \<^verbatim>\<open>runBot\<close>, given the three imported services at their declared types; \<open>notify\<close> is
  reduced to how it ends.
\<close>

definition runBot ::
  "(object \<Rightarrow> error + Stock list) \<Rightarrow> (Stock list \<Rightarrow> error + ScoredStock list)
     \<Rightarrow> (ScoredStock list \<Rightarrow> error + unit) \<Rightarrow> object \<Rightarrow> error + ScoredStock list" where
  "runBot fetch scoreAndExplain' notify params =
     (case fetch params of
        Inl err \<Rightarrow> Inl err
      | Inr stocks \<Rightarrow>
          (case scoreAndExplain' stocks of
             Inl err \<Rightarrow> Inl err
           | Inr scored \<Rightarrow>
               (let top3 = slice0 3 (Array_sort by_score scored) in
                case notify top3 of
                  Inl err \<Rightarrow> Inl err
                | Inr _ \<Rightarrow> Inr top3)))"

text \<open>
  A value of \<^verbatim>\<open>req.query\<close>: a string, an array (a repeated parameter) or an object
  (a bracketed parameter), as the query parser builds them.
\<close>

datatype qval = QStr string | QArr "qval list" | QObj "(string \<times> qval) list"

text \<open>ToString of such a value; of \<^verbatim>\<open>undefined\<close> when the parameter is absent.\<close>

fun qval_string :: "qval \<Rightarrow> string" where
  "qval_string (QStr s) = s"
| "qval_string (QArr xs) = join '','' (map qval_string xs)"
| "qval_string (QObj _) = ''[object Object]''"

definition String' :: "qval option \<Rightarrow> string" where
  "String' q = (case q of None \<Rightarrow> ''undefined'' | Some v \<Rightarrow> qval_string v)"

definition Number' :: "qval option \<Rightarrow> jsnum" where
  "Number' q = (case q of None \<Rightarrow> NaN | Some v \<Rightarrow> StringToNumber (qval_string v))"

text \<open>The object \<^verbatim>\<open>params\<close> that the handler of \<^verbatim>\<open>/run\<close> builds from \<^verbatim>\<open>req.query\<close>.\<close>

definition run_params :: "(string \<Rightarrow> qval option) \<Rightarrow> object" where
  "run_params query =
     [(''marketCapLowerThan'', VNum (Number' (query ''marketCapLowerThan''))),
      (''priceLowerThan'', VNum (Number' (query ''priceLowerThan''))),
      (''averageVolumeMoreThan'', VNum (Number' (query ''averageVolumeMoreThan''))),
      (''exchange'', VStr (String' (query ''exchange''))),
      (''isActivelyTrading'', VBool (query ''isActivelyTrading'' = Some (QStr ''true''))),
      (''isEtf'', VBool (query ''isEtf'' = Some (QStr ''true''))),
      (''isFund'', VBool (query ''isFund'' = Some (QStr ''true''))),
      (''limit'', VNum (if num_truthy (Number' (query ''limit''))
                        then Number' (query ''limit'') else Fin 400))]"

datatype reply = Json "ScoredStock list" | Status500 string

definition run_handler ::
  "(object \<Rightarrow> error + Stock list) \<Rightarrow> (Stock list \<Rightarrow> error + ScoredStock list)
     \<Rightarrow> (ScoredStock list \<Rightarrow> error + unit) \<Rightarrow> (string \<Rightarrow> qval option) \<Rightarrow> reply" where
  "run_handler fetch scoreAndExplain' notify query =
     (case runBot fetch scoreAndExplain' notify (run_params query) of
        Inl err \<Rightarrow> Status500 ''Internal Error''
      | Inr data \<Rightarrow> Json data)"

section \<open>Notions used in the statements\<close>

text \<open>\<^verbatim>\<open>typeof v === "number"\<close> and \<^verbatim>\<open>Number.isFinite\<close>.\<close>

fun typeof_number :: "jsval \<Rightarrow> bool" where
  "typeof_number (VNum _) = True"
| "typeof_number _ = False"

definition is_finite :: "jsnum \<Rightarrow> bool" where
  "is_finite x = (x \<noteq> NaN \<and> \<not> is_infinite x)"



text \<open>
  A scored stock whose score is a number other than NaN, and a list in descending order
  of score.
\<close>

definition well_scored :: "ScoredStock \<Rightarrow> bool" where
  "well_scored s = (score s \<noteq> NaN \<and> is_double (score s))"

definition descending :: "ScoredStock list \<Rightarrow> bool" where
  "descending xs = sorted_wrt (\<lambda>a b. js_le (score b) (score a)) xs"

text \<open>
  The least positive binary64 value, and the rationals that are integer multiples of it;
  every finite binary64 value is one.
\<close>

definition tiny :: rat where
  "tiny = 2 powi (- 1074)"

definition on_grid :: "rat \<Rightarrow> bool" where
  "on_grid q = (\<exists>m::int. q = of_int m * tiny)"

text \<open>
  The condition of the specification for a candidate to be in the output of the
  enrichment: not an ETF or fund, a target price that exists and is more than 1.5 times
  the price, analyst sentiment obtained, and numeric P/E, P/B and debt-to-equity.
\<close>

definition passes_filters :: "fmp \<Rightarrow> Candidate \<Rightarrow> bool" where
  "passes_filters api c =
     (\<not> isEtf c \<and> \<not> isFund c
      \<and> (case getTargetPrice api (Candidate.symbol c) of
            None \<Rightarrow> False
          | Some t \<Rightarrow> js_gt (js_div t (Candidate.price c)) (Fin (3 / 2)))
      \<and> getAnalystSentiment api (Candidate.symbol c) \<noteq> None
      \<and> typeof_number (Metrics.pe (getMetrics api (Candidate.symbol c)))
      \<and> typeof_number (Metrics.pb (getMetrics api (Candidate.symbol c)))
      \<and> typeof_number (Metrics.debtToEquity (getMetrics api (Candidate.symbol c))))"

text \<open>
  A candidate that meets every condition but the one on the ratio, and whose ratio of
  target price to price is NaN, so that the ratio is neither above 1.5 nor at most 1.5.
\<close>

definition kept_without_ratio :: "fmp \<Rightarrow> Candidate \<Rightarrow> bool" where
  "kept_without_ratio api c =
     (\<not> isEtf c \<and> \<not> isFund c
      \<and> (case getTargetPrice api (Candidate.symbol c) of
            None \<Rightarrow> False
          | Some t \<Rightarrow> js_div t (Candidate.price c) = NaN)
      \<and> getAnalystSentiment api (Candidate.symbol c) \<noteq> None
      \<and> typeof_number (Metrics.pe (getMetrics api (Candidate.symbol c)))
      \<and> typeof_number (Metrics.pb (getMetrics api (Candidate.symbol c)))
      \<and> typeof_number (Metrics.debtToEquity (getMetrics api (Candidate.symbol c))))"

text \<open>
  What one turn of the loop of \<^verbatim>\<open>fetchUndervaluedStocks\<close> appends, if anything; the
  loop is shown below to be the list of these records.
\<close>

definition stock_record ::
  "Candidate \<Rightarrow> jsnum \<Rightarrow> StockInsights \<Rightarrow> jsnum \<Rightarrow> jsnum \<Rightarrow> jsnum \<Rightarrow> Stock" where
  "stock_record stock targetPrice' analystSentiment pe' pb' debtToEquity' =
     \<lparr> period = period analystSentiment,
       eps = eps analystSentiment,
       ebitdaMargin = ebitdaMargin analystSentiment,
       netMargin = netMargin analystSentiment,
       sgaToRevenueRatio = sgaToRevenueRatio analystSentiment,
       analystCount = analystCount analystSentiment,
       summary = summary analystSentiment,
       Stock.symbol = Candidate.symbol stock,
       companyName = Candidate.companyName stock,
       price = Candidate.price stock,
       pe = pe',
       pb = pb',
       targetPrice = Some targetPrice',
       rsi = Fin 50,
       debtToEquity = debtToEquity' \<rparr>"

definition enrich_one :: "fmp \<Rightarrow> Candidate \<Rightarrow> Stock option" where
  "enrich_one api stock =
     (case getTargetPrice api (Candidate.symbol stock) of
        None \<Rightarrow> None
      | Some t \<Rightarrow>
          if \<not> num_truthy t \<or> js_le (js_div t (Candidate.price stock)) (Fin (3 / 2)) then None
          else (case getAnalystSentiment api (Candidate.symbol stock) of
                  None \<Rightarrow> None
                | Some a \<Rightarrow>
                    (case Metrics.pe (getMetrics api (Candidate.symbol stock)) of
                       VNum pe' \<Rightarrow>
                         (case Metrics.pb (getMetrics api (Candidate.symbol stock)) of
                            VNum pb' \<Rightarrow>
                              (case Metrics.debtToEquity (getMetrics api (Candidate.symbol stock)) of
                                 VNum de' \<Rightarrow> Some (stock_record stock t a pe' pb' de')
                               | _ \<Rightarrow> None)
                          | _ \<Rightarrow> None)
                     | _ \<Rightarrow> None)))"

text \<open>
  The content of a chat completion as \<^verbatim>\<open>scoreAndExplain\<close> reads it: that of the message
  of the first choice; \<open>None\<close> when there is none or it is empty.
\<close>

definition response_content :: "ChatCompletion \<Rightarrow> string option" where
  "response_content res =
     (case choices res of
        [] \<Rightarrow> None
      | choice # _ \<Rightarrow>
          (case message choice of
             None \<Rightarrow> None
           | Some m \<Rightarrow> (case content m of None \<Rightarrow> None | Some c \<Rightarrow> if c = [] then None else Some c)))"

text \<open>The completion with one choice whose message has the content \<open>c\<close>.\<close>

definition completion :: "string \<Rightarrow> ChatCompletion" where
  "completion c = \<lparr> choices = [\<lparr> message = Some \<lparr> content = Some c \<rparr> \<rparr>] \<rparr>"

text \<open>The shape that the interface \<^verbatim>\<open>ScoredStock\<close> declares, as a test on a parsed value.\<close>

fun has_type :: "(json \<Rightarrow> bool) \<Rightarrow> (string \<times> json) list \<Rightarrow> string \<Rightarrow> bool" where
  "has_type ty ob k = (case map_of ob k of None \<Rightarrow> False | Some v \<Rightarrow> ty v)"

fun is_ScoredStock :: "json \<Rightarrow> bool" where
  "is_ScoredStock (JObj ob) =
     (has_type (\<lambda>v. case v of JStr _ \<Rightarrow> True | _ \<Rightarrow> False) ob ''symbol''
      \<and> has_type (\<lambda>v. case v of JNum _ \<Rightarrow> True | _ \<Rightarrow> False) ob ''score''
      \<and> has_type (\<lambda>v. case v of JStr _ \<Rightarrow> True | _ \<Rightarrow> False) ob ''explanation'')"
| "is_ScoredStock _ = False"

fun is_ScoredStock_array :: "json \<Rightarrow> bool" where
  "is_ScoredStock_array (JArr xs) = list_all is_ScoredStock xs"
| "is_ScoredStock_array _ = False"

section \<open>Example data\<close>

text \<open>
  A provider that lists three candidates at 100: \<open>ABC\<close> with a target of 160, \<open>LOW\<close>
  with a target of 140, and a fund; estimates and metrics are the same for every symbol.
\<close>

definition example_candidates :: "Candidate list" where
  "example_candidates =
     [\<lparr> Candidate.symbol = ''ABC'', companyName = ''ABC Corp'', price = Fin 100,
         isEtf = False, isFund = False \<rparr>,
      \<lparr> Candidate.symbol = ''LOW'', companyName = ''Low Inc'', price = Fin 100,
         isEtf = False, isFund = False \<rparr>,
      \<lparr> Candidate.symbol = ''FND'', companyName = ''A Fund'', price = Fin 100,
         isEtf = False, isFund = True \<rparr>]"

definition example_estimate :: Estimate where
  "example_estimate =
     \<lparr> Estimate.symbol = ''ABC'', date = ''2026-12-31'',
       revenueAvg = Fin 1000, ebitdaAvg = Fin 250, netIncomeAvg = Fin 125,
       sgaExpenseAvg = Fin 100, epsAvg = VNum (Fin (5 / 2)),
       numAnalystsRevenue = Fin 12, numAnalystsEps = VNum (Fin 9) \<rparr>"

definition example_raw :: RawStockData where
  "example_raw = as_RawStockData example_estimate (Fin (5 / 2)) (Fin 9)"

definition example_fmp :: fmp where
  "example_fmp =
     \<lparr> FMP_API_KEY = ''k'',
       company_screener = (\<lambda>url. Resolved (Some example_candidates)),
       price_target_summary = (\<lambda>url.
         if url = ''https://financialmodelingprep.com/stable/price-target-summary?symbol=LOW&apikey=k''
         then Resolved (Some [\<lparr> allTimeAvgPriceTarget = Some (Fin 140) \<rparr>])
         else Resolved (Some [\<lparr> allTimeAvgPriceTarget = Some (Fin 160) \<rparr>])),
       analyst_estimates = (\<lambda>url. Resolved (Some [example_estimate])),
       key_metrics_ttm = (\<lambda>url. Resolved (Some
         [\<lparr> peRatioTTM = VNum (Fin 8), pbRatioTTM = VNum (Fin 1), debtToEquityTTM = VNum (Fin (1 / 2)) \<rparr>])) \<rparr>"

text \<open>
  The same provider when the screener lists \<open>ABC\<close> at 100, \<open>NOP\<close> without a price, and
  \<open>LOW\<close> at 100.
\<close>

definition example_unpriced :: "Candidate list" where
  "example_unpriced =
     [\<lparr> Candidate.symbol = ''ABC'', companyName = ''ABC Corp'', price = Fin 100,
         isEtf = False, isFund = False \<rparr>,
      \<lparr> Candidate.symbol = ''NOP'', companyName = ''No Price Inc'', price = NaN,
         isEtf = False, isFund = False \<rparr>,
      \<lparr> Candidate.symbol = ''LOW'', companyName = ''Low Inc'', price = Fin 100,
         isEtf = False, isFund = False \<rparr>]"

definition example_unpriced_fmp :: fmp where
  "example_unpriced_fmp =
     example_fmp\<lparr>company_screener := (\<lambda>url. Resolved (Some example_unpriced))\<rparr>"

definition example_array :: string where
  \<open>example_array = ''[{"symbol":"ABC","score":9,"explanation":"..."}]''\<close>

definition example_parsed :: json where
  "example_parsed =
     JArr [JObj [(''symbol'', JStr ''ABC''), (''score'', JNum (Fin 9)), (''explanation'', JStr ''...'')]]"

text \<open>Model answers: prose around the example array, and prose with brackets of its own.\<close>

definition example_content :: string where
  "example_content = ''Here are the top stocks: '' @ example_array @ '' Let me know.''"

definition example_draft_content :: string where
  "example_draft_content = ''Draft [{to be filled}] then '' @ example_array"

text \<open>An array whose one element has a symbol and nothing else.\<close>

definition example_bare_array :: string where
  \<open>example_bare_array = ''[{"symbol":"ABC"}]''\<close>

definition example_bare_parsed :: json where
  "example_bare_parsed = JArr [JObj [(''symbol'', JStr ''ABC'')]]"

definition example_bare_content :: string where
  "example_bare_content = ''Top pick: '' @ example_bare_array"

text \<open>
  \<^verbatim>\<open>JSON.parse\<close> on the texts of the examples: the example array and an array whose
  element has a symbol only are parsed, the other texts of the examples are not JSON.
\<close>

definition example_JSON_parse :: "string \<Rightarrow> json option" where
  "example_JSON_parse text =
     (if text = example_array then Some example_parsed
      else if text = example_bare_array then Some example_bare_parsed
      else None)"

definition example_scored :: "ScoredStock list" where
  "example_scored =
     [\<lparr> ScoredStock.symbol = ''AAA'', score = Fin 7, explanation = ''a'' \<rparr>,
      \<lparr> ScoredStock.symbol = ''BBB'', score = Fin (19 / 2), explanation = ''b'' \<rparr>,
      \<lparr> ScoredStock.symbol = ''CCC'', score = Fin 3, explanation = ''c'' \<rparr>,
      \<lparr> ScoredStock.symbol = ''DDD'', score = Fin (19 / 2), explanation = ''d'' \<rparr>]"

text \<open>A chat platform where every request ends as given.\<close>

definition discord_answering :: "delivery \<Rightarrow> discord" where
  "discord_answering r =
     \<lparr> DISCORD_BOT_TOKEN = ''token'', DISCORD_CHANNEL_ID = ''1'',
       deliver = (\<lambda>url body auth. r) \<rparr>"

section \<open>Rounding\<close>

lemma ndigits_bounds:
  "0 < a \<Longrightarrow> 1 < b \<Longrightarrow>
     1 \<le> ndigits b a \<and> b ^ nat (ndigits b a - 1) \<le> a \<and> a < b ^ nat (ndigits b a)"
proof (induction b a rule: ndigits.induct)
  case (1 b a)
  have split: "b * (a div b) + a mod b = a" "0 \<le> a mod b" "a mod b < b"
    using "1.prems"(2) by simp_all
  show ?case
  proof (cases "a div b = 0")
    case True
    with split have "a < b"
      by simp
    moreover from True "1.prems" have "ndigits b a = 1"
      by (subst ndigits.simps) (simp add: ndigits.simps[of b 0])
    ultimately show ?thesis using "1.prems" by simp
  next
    case False
    have "0 \<le> a div b"
      using "1.prems" by (simp add: pos_imp_zdiv_nonneg_iff)
    with False have pos: "0 < a div b"
      by simp
    from "1.IH"[OF _ pos "1.prems"(2)] "1.prems"
    have ih: "1 \<le> ndigits b (a div b)" "b ^ nat (ndigits b (a div b) - 1) \<le> a div b"
             "a div b < b ^ nat (ndigits b (a div b))"
      by simp_all
    have n: "ndigits b a = ndigits b (a div b) + 1"
      using "1.prems" by (subst ndigits.simps) simp
    let ?n = "ndigits b (a div b)"
    have nat_n: "nat ?n = Suc (nat (?n - 1))"
      using ih(1) by simp
    have lo: "b ^ nat ?n \<le> a"
    proof -
      have "b ^ nat ?n = b * b ^ nat (?n - 1)"
        by (simp add: nat_n)
      also have "\<dots> \<le> b * (a div b)"
        using ih(2) "1.prems"(2) by (simp add: mult_left_mono)
      also have "\<dots> \<le> a"
        using split by linarith
      finally show ?thesis .
    qed
    have hi: "a < b ^ nat (?n + 1)"
    proof -
      have "a < b * (a div b) + b"
        using split by linarith
      also have "\<dots> = b * (a div b + 1)"
        by (simp add: distrib_left)
      also have "\<dots> \<le> b * b ^ nat ?n"
        using ih(3) "1.prems"(2) by (simp add: mult_left_mono)
      also have "\<dots> = b ^ nat (?n + 1)"
        using ih(1) by (simp add: nat_add_distrib)
      finally show ?thesis .
    qed
    show ?thesis
      using ih(1) lo hi by (simp add: n)
  qed
qed


lemma powi_nat: "0 \<le> n \<Longrightarrow> (x::rat) powi n = x ^ nat n"
  by (simp add: power_int_def)

lemma ilog_lower:
  assumes "0 < q" "1 < b"
  shows "of_int b powi (ilog b q) \<le> q"
proof -
  obtain n d where nd: "quotient_of q = (n, d)"
    by (cases "quotient_of q")
  then have d: "0 < d" and q: "q = of_int n / of_int d"
    using quotient_of_denom_pos quotient_of_div by blast+
  from q d assms(1) have n: "0 < n"
    by (simp add: zero_less_divide_iff)
  let ?ln = "ndigits b n" and ?ld = "ndigits b d"
  let ?B = "of_int b :: rat"
  have B: "1 < ?B" "0 < ?B" "?B \<noteq> 0"
    using assms(2) by simp_all
  from ndigits_bounds[OF n assms(2)]
  have ln: "1 \<le> ?ln" "?B ^ nat (?ln - 1) \<le> of_int n"
    by (simp_all flip: of_int_power add: of_int_le_iff del: of_int_power)
  from ndigits_bounds[OF d assms(2)]
  have ld: "1 \<le> ?ld" "of_int d \<le> ?B ^ nat ?ld"
    by (simp_all flip: of_int_power add: of_int_le_iff less_imp_le del: of_int_power)
  have low: "?B powi (?ln - ?ld - 1) \<le> q"
  proof -
    have *: "?ln - ?ld - 1 = (?ln - 1) - ?ld"
      by simp
    have "?B powi (?ln - ?ld - 1) = ?B powi (?ln - 1) / ?B powi ?ld"
      by (subst *) (rule power_int_diff, rule disjI1, rule B(3))
    also have "\<dots> = ?B ^ nat (?ln - 1) / ?B ^ nat ?ld"
      using ln(1) ld(1) by (simp add: powi_nat)
    also have "\<dots> \<le> of_int n / ?B ^ nat ?ld"
      using ln(2) B(2) by (simp add: divide_right_mono)
    also have "\<dots> \<le> of_int n / of_int d"
    proof (rule divide_left_mono[OF ld(2)])
      show "(0::rat) \<le> of_int n" using n by simp
      show "(0::rat) < ?B ^ nat ?ld * of_int d" using d B(2) by simp
    qed
    finally show ?thesis by (simp add: q)
  qed
  show ?thesis
    using low by (auto simp: ilog_def nd Let_def)
qed

lemma tiny_pos: "0 < tiny"
  by (simp add: tiny_def)

lemma powi_tiny: "(2::rat) powi (e - 52) = 2 powi (e + 1022) * tiny"
proof -
  have *: "e - 52 = (e + 1022) + (- 1074)"
    by simp
  show ?thesis
    unfolding tiny_def by (subst *) (rule power_int_add, simp)
qed

lemma on_grid_0: "on_grid 0"
  by (auto simp: on_grid_def intro: exI[of _ 0])

lemma on_grid_diff: "on_grid a \<Longrightarrow> on_grid b \<Longrightarrow> on_grid (a - b)"
  unfolding on_grid_def
proof (elim exE)
  fix m n :: int
  assume "a = of_int m * tiny" "b = of_int n * tiny"
  then have "a - b = of_int (m - n) * tiny"
    by (simp add: algebra_simps)
  then show "\<exists>k::int. a - b = of_int k * tiny" ..
qed

lemma on_grid_minus: "on_grid a \<Longrightarrow> on_grid (- a)"
  using on_grid_diff[OF on_grid_0, of a] by simp

lemma on_grid_abs: "on_grid a \<Longrightarrow> on_grid \<bar>a\<bar>"
  by (simp add: abs_if on_grid_minus)

lemma on_grid_pos:
  assumes "on_grid d" "0 < d"
  shows "tiny \<le> d"
proof -
  from assms(1) obtain m :: int where m: "d = of_int m * tiny"
    by (auto simp: on_grid_def)
  from assms(2) m tiny_pos have "0 < (of_int m :: rat)"
    by (simp add: zero_less_mult_iff)
  then have "1 \<le> m"
    by simp
  then have "(1::rat) \<le> of_int m"
    by simp
  then have "1 * tiny \<le> of_int m * tiny"
    using tiny_pos by (intro mult_right_mono) simp_all
  then show ?thesis
    by (simp add: m)
qed

lemma round_half_even_ge: "1 \<le> x \<Longrightarrow> 1 \<le> round_half_even x"
proof -
  assume "1 \<le> x"
  then have "1 \<le> \<lfloor>x\<rfloor>"
    by (simp add: le_floor_iff)
  then show ?thesis
    by (simp add: round_half_even_def Let_def)
qed


lemma round_pos_result:
  assumes "round_pos q = Some r"
  shows "r = of_int (round_half_even (q / 2 powi (max (ilog2 q) (- 1022) - 52)))
               * 2 powi (max (ilog2 q) (- 1022) - 52)"
  using assms
  by (auto simp: round_pos_def round_at_def round_mantissa_def split: if_splits)

lemma round_pos_on_grid:
  assumes "round_pos q = Some r"
  shows "on_grid r"
proof -
  let ?e = "max (ilog2 q) (- 1022)"
  have "(2::rat) powi (?e - 52) = 2 powi (?e + 1022) * tiny"
    by (rule powi_tiny)
  also have "\<dots> = of_int (2 ^ nat (?e + 1022)) * tiny"
    by (simp add: powi_nat)
  finally have "r = of_int (round_half_even (q / 2 powi (?e - 52)) * 2 ^ nat (?e + 1022)) * tiny"
    using round_pos_result[OF assms] by simp
  then show ?thesis
    unfolding on_grid_def by blast
qed

lemma round_pos_positive:
  assumes "tiny \<le> q" "round_pos q = Some r"
  shows "0 < r"
proof -
  let ?e = "max (ilog2 q) (- 1022)"
  let ?u = "(2::rat) powi (?e - 52)"
  have q: "0 < q"
    using assms(1) tiny_pos by simp
  have u: "0 < ?u" by simp
  have "?u \<le> q"
  proof (cases "ilog2 q \<le> - 1022")
    case True
    then have "?e = - 1022" by simp
    then have "?u = tiny" by (simp add: tiny_def)
    then show ?thesis using assms(1) by simp
  next
    case False
    then have e: "?e = ilog2 q" by simp
    have "?u \<le> 2 powi (ilog2 q)"
      unfolding e by (rule power_int_increasing) simp_all
    also have "\<dots> \<le> q"
      using ilog_lower[OF q, of 2] by (simp add: ilog2_def)
    finally show ?thesis .
  qed
  then have "1 \<le> q / ?u"
    using u by (simp add: le_divide_eq)
  then have "1 \<le> round_half_even (q / ?u)"
    by (rule round_half_even_ge)
  then have "(0::rat) < of_int (round_half_even (q / ?u))"
    by simp
  then show ?thesis
    unfolding round_pos_result[OF assms(2)] using u by (simp add: zero_less_mult_iff)
qed


lemma is_double_on_grid: "is_double x \<Longrightarrow> on_grid (rat_of x)"
proof (cases x)
  case (Fin q)
  assume "is_double x"
  with Fin consider "q = 0" | "round_pos \<bar>q\<bar> = Some \<bar>q\<bar>"
    by auto
  then show ?thesis
  proof cases
    case 1
    then show ?thesis by (simp add: Fin on_grid_0)
  next
    case 2
    then have g: "on_grid \<bar>q\<bar>"
      by (rule round_pos_on_grid)
    show ?thesis
    proof (cases "q < 0")
      case True
      with on_grid_minus[OF g] show ?thesis by (simp add: Fin)
    next
      case False
      with g show ?thesis by (simp add: Fin)
    qed
  qed
qed (simp_all add: on_grid_0)

lemma to_double_sign:
  assumes "on_grid d" "d \<noteq> 0"
  shows "js_gt (to_double d) (Fin 0) = (0 < d)"
proof -
  have "tiny \<le> \<bar>d\<bar>"
    using assms by (intro on_grid_pos on_grid_abs) simp_all
  then show ?thesis
    using round_pos_positive[of "\<bar>d\<bar>"] assms(2)
    by (cases "round_pos \<bar>d\<bar>")
       (auto simp: to_double_def js_gt_def js_inf_def js_zero_def)
qed

lemma js_sub_gt_iff:
  assumes "x \<noteq> NaN" "y \<noteq> NaN" "is_double x" "is_double y"
  shows "js_gt (js_sub y x) (Fin 0) = js_lt x y"
proof (cases "is_infinite x \<or> is_infinite y")
  case True
  then show ?thesis
    using assms(1,2)
    by (cases x; cases y) (simp_all add: js_sub_def js_gt_def js_inf_def)
next
  case False
  then have fin: "\<not> is_infinite x" "\<not> is_infinite y" by simp_all
  have lt: "js_lt x y = (rat_of x < rat_of y)"
    using fin assms(1,2) by (cases x; cases y) simp_all
  show ?thesis
  proof (cases "rat_of y = rat_of x")
    case True
    then show ?thesis
      using fin assms(1,2) by (simp add: js_sub_def js_gt_def js_zero_def lt)
  next
    case False
    have "on_grid (rat_of y - rat_of x)"
      using assms(3,4) by (intro on_grid_diff is_double_on_grid)
    then have "js_gt (to_double (rat_of y - rat_of x)) (Fin 0) = (0 < rat_of y - rat_of x)"
      using False by (intro to_double_sign) simp_all
    then show ?thesis
      using fin assms(1,2) False by (simp add: js_sub_def lt)
  qed
qed

text \<open>
  The exponent found by \<open>ilog\<close> is the only one, and a rational close enough to a
  binary64 value with a full mantissa rounds to it.
\<close>

lemma ilog_upper:
  assumes "0 < q" "1 < b"
  shows "q < of_int b powi (ilog b q + 1)"
proof -
  obtain n d where nd: "quotient_of q = (n, d)"
    by (cases "quotient_of q")
  then have d: "0 < d" and q: "q = of_int n / of_int d"
    using quotient_of_denom_pos quotient_of_div by blast+
  from q d assms(1) have n: "0 < n"
    by (simp add: zero_less_divide_iff)
  let ?ln = "ndigits b n" and ?ld = "ndigits b d"
  let ?B = "of_int b :: rat"
  have B: "1 < ?B" "0 < ?B" "?B \<noteq> 0"
    using assms(2) by simp_all
  from ndigits_bounds[OF n assms(2)]
  have ln: "1 \<le> ?ln" "of_int n < ?B ^ nat ?ln"
    by (simp_all flip: of_int_power add: of_int_less_iff del: of_int_power)
  from ndigits_bounds[OF d assms(2)]
  have ld: "1 \<le> ?ld" "?B ^ nat (?ld - 1) \<le> of_int d"
    by (simp_all flip: of_int_power add: of_int_le_iff del: of_int_power)
  have up: "q < ?B powi (?ln - ?ld + 1)"
  proof -
    have *: "?ln - ?ld + 1 = ?ln - (?ld - 1)"
      by simp
    have "q < ?B ^ nat ?ln / of_int d"
      unfolding q using ln(2) d by (simp add: divide_strict_right_mono)
    also have "\<dots> \<le> ?B ^ nat ?ln / ?B ^ nat (?ld - 1)"
    proof (rule divide_left_mono[OF ld(2)])
      show "(0::rat) \<le> ?B ^ nat ?ln" using B(2) by simp
      show "(0::rat) < of_int d * ?B ^ nat (?ld - 1)" using d B(2) by simp
    qed
    also have "\<dots> = ?B powi ?ln / ?B powi (?ld - 1)"
      using ln(1) ld(1) by (simp add: powi_nat)
    also have "\<dots> = ?B powi (?ln - ?ld + 1)"
      by (subst *) (rule power_int_diff[symmetric], rule disjI1, rule B(3))
    finally show ?thesis .
  qed
  show ?thesis
    using up by (auto simp: ilog_def nd Let_def)
qed

lemma powi_exponent_unique:
  fixes B q :: rat
  assumes "1 < B" "B powi e \<le> q" "q < B powi (e + 1)" "B powi e' \<le> q" "q < B powi (e' + 1)"
  shows "e = e'"
proof (rule ccontr)
  assume "e \<noteq> e'"
  then consider "e + 1 \<le> e'" | "e' + 1 \<le> e"
    by linarith
  then show False
  proof cases
    case 1
    have "B powi (e + 1) \<le> B powi e'"
      by (rule power_int_increasing) (use 1 assms(1) in simp_all)
    with assms show False by linarith
  next
    case 2
    have "B powi (e' + 1) \<le> B powi e"
      by (rule power_int_increasing) (use 2 assms(1) in simp_all)
    with assms show False by linarith
  qed
qed

lemma ilog_eq:
  assumes "1 < b" "of_int b powi e \<le> q" "q < of_int b powi (e + 1)"
  shows "ilog b q = e"
proof -
  have "0 < (of_int b :: rat) powi e"
    using assms(1) by simp
  with assms(2) have q: "0 < q"
    by linarith
  show ?thesis
    by (rule powi_exponent_unique[of "of_int b" _ q])
       (use assms ilog_lower[OF q assms(1)] ilog_upper[OF q assms(1)] in simp_all)
qed


lemma ilog10_eq: "10 powi e \<le> q \<Longrightarrow> q < 10 powi (e + 1) \<Longrightarrow> ilog10 q = e"
  unfolding ilog10_def by (rule ilog_eq) simp_all














section \<open>Writing a number with toFixed and reading it back\<close>























lemma non_decimal_short: "non_decimal [z] = None"
  by (simp add: non_decimal_def)









section \<open>Numbers that toFixed writes in exponent notation\<close>





















section \<open>The enrichment loop\<close>

lemma enrich_step:
  "enrich api (c # cs) acc =
     enrich api cs (case enrich_one api c of None \<Rightarrow> acc | Some s \<Rightarrow> acc @ [s])"
  by (simp add: enrich_one_def stock_record_def getRsi_def Let_def
           split: option.split jsval.split)

lemma enrich_map_filter:
  "enrich api cs acc = acc @ List.map_filter (enrich_one api) cs"
proof (induction cs arbitrary: acc)
  case Nil
  show ?case by (simp add: List.map_filter_simps)
next
  case (Cons c cs)
  show ?case
    unfolding enrich_step Cons.IH
    by (simp add: List.map_filter_simps split: option.split)
qed


lemma getTargetPrice_positive:
  "getTargetPrice api s = Some t \<Longrightarrow> num_truthy t \<and> js_gt t (Fin 0)"
  by (auto simp: getTargetPrice_def split: response.splits option.splits list.splits if_splits)

lemma to_double_not_NaN: "to_double q \<noteq> NaN"
  by (simp add: to_double_def js_inf_def js_zero_def split: option.split)

lemma js_div_not_NaN:
  assumes "num_truthy t" "js_gt t (Fin 0)" "is_finite p"
  shows "js_div t p \<noteq> NaN"
  using assms
  by (cases t; cases p)
     (auto simp: js_div_def num_truthy_def is_finite_def js_gt_def js_inf_def js_zero_def
                 to_double_not_NaN Let_def)

lemma not_js_le_iff: "x \<noteq> NaN \<Longrightarrow> (\<not> js_le x (Fin q)) = js_gt x (Fin q)"
  by (simp add: js_le_def js_gt_def)

lemma enrich_one_None_iff:
  assumes "is_finite (Candidate.price c)"
  shows "(enrich_one api c \<noteq> None) = (case getTargetPrice api (Candidate.symbol c) of
            None \<Rightarrow> False
          | Some t \<Rightarrow> js_gt (js_div t (Candidate.price c)) (Fin (3 / 2))
      \<and> getAnalystSentiment api (Candidate.symbol c) \<noteq> None
      \<and> typeof_number (Metrics.pe (getMetrics api (Candidate.symbol c)))
      \<and> typeof_number (Metrics.pb (getMetrics api (Candidate.symbol c)))
      \<and> typeof_number (Metrics.debtToEquity (getMetrics api (Candidate.symbol c))))"
proof (cases "getTargetPrice api (Candidate.symbol c)")
  case None
  then show ?thesis by (simp add: enrich_one_def)
next
  case (Some t)
  from getTargetPrice_positive[OF Some] have t: "num_truthy t" "js_gt t (Fin 0)" by simp_all
  have "js_div t (Candidate.price c) \<noteq> NaN" by (rule js_div_not_NaN[OF t assms])
  then have le: "js_le (js_div t (Candidate.price c)) (Fin (3 / 2))
                 = (\<not> js_gt (js_div t (Candidate.price c)) (Fin (3 / 2)))"
    using not_js_le_iff by blast
  show ?thesis
    using t(1)
    by (cases "Metrics.pe (getMetrics api (Candidate.symbol c))";
        cases "Metrics.pb (getMetrics api (Candidate.symbol c))";
        cases "Metrics.debtToEquity (getMetrics api (Candidate.symbol c))";
        cases "getAnalystSentiment api (Candidate.symbol c)")
       (simp_all add: enrich_one_def Some le)
qed

lemma enrich_one_fields:
  "enrich_one api c = Some s \<Longrightarrow>
     Stock.symbol s = Candidate.symbol c \<and> Stock.companyName s = Candidate.companyName c
     \<and> Stock.price s = Candidate.price c \<and> rsi s = Fin 50"
  by (auto simp: enrich_one_def stock_record_def split: option.splits if_splits jsval.splits)

lemma map_filter_as_map:
  "map g (List.map_filter f xs) = map h (filter (\<lambda>x. f x \<noteq> None) xs)"
  if "\<And>x y. f x = Some y \<Longrightarrow> g y = h x"
  using that by (induction xs) (auto simp: List.map_filter_simps split: option.splits)


lemma passes_filters_iff:
  assumes "is_finite (Candidate.price c)"
  shows "passes_filters api c = (\<not> isEtf c \<and> \<not> isFund c \<and> enrich_one api c \<noteq> None)"
  unfolding enrich_one_None_iff[OF assms] passes_filters_def
  by (simp split: option.split)

lemma filter_filter_cong:
  "(\<And>x. x \<in> set xs \<Longrightarrow> P x = (Q x \<and> R x)) \<Longrightarrow> filter R (filter Q xs) = filter P xs"
  by (induction xs) auto

lemma example_passing:
  "filter (passes_filters example_fmp) example_candidates = [hd example_candidates]"
  by code_simp


lemma example_enriched:
  "fetchUndervaluedStocks example_fmp screenerOptions
     = Inr [the (enrich_one example_fmp (hd example_candidates))]"
proof -
  let ?f = "filter (\<lambda>s. \<not> isEtf s \<and> \<not> isFund s) example_candidates"
  have fin: "\<forall>c\<in>set example_candidates. is_finite (Candidate.price c)"
    by (simp add: example_candidates_def is_finite_def)
  have "filter (\<lambda>c. enrich_one example_fmp c \<noteq> None) ?f
          = filter (passes_filters example_fmp) example_candidates"
    by (rule filter_filter_cong) (use fin passes_filters_iff in blast)
  then have "List.map_filter (enrich_one example_fmp) ?f
               = [the (enrich_one example_fmp (hd example_candidates))]"
    by (simp add: List.map_filter_def example_passing)
  then show ?thesis
    by (simp add: fetchUndervaluedStocks_def enrich_map_filter example_fmp_def)
qed

lemma example_enriched_Some:
  "\<exists>s. enrich_one example_fmp (hd example_candidates) = Some s"
proof -
  have "hd example_candidates \<in> set (filter (passes_filters example_fmp) example_candidates)"
    by (simp add: example_passing)
  then have "passes_filters example_fmp (hd example_candidates)"
    by simp
  moreover have "is_finite (Candidate.price (hd example_candidates))"
    by (simp add: example_candidates_def is_finite_def)
  ultimately show ?thesis
    using passes_filters_iff by blast
qed

lemma js_le_cases: "js_le x (Fin q) = (\<not> js_gt x (Fin q) \<and> x \<noteq> NaN)"
  by (auto simp: js_le_def js_gt_def)

lemma js_gt_NaN: "\<not> js_gt NaN y"
  by (cases y) (simp_all add: js_gt_def)

lemma kept_iff:
  "(passes_filters api c \<or> kept_without_ratio api c)
     = (\<not> isEtf c \<and> \<not> isFund c \<and> enrich_one api c \<noteq> None)"
proof (cases "getTargetPrice api (Candidate.symbol c)")
  case None
  then show ?thesis
    by (simp add: enrich_one_def passes_filters_def kept_without_ratio_def)
next
  case (Some t)
  from getTargetPrice_positive[OF Some] have t: "num_truthy t"
    by simp
  show ?thesis
    using t
    by (cases "Metrics.pe (getMetrics api (Candidate.symbol c))";
        cases "Metrics.pb (getMetrics api (Candidate.symbol c))";
        cases "Metrics.debtToEquity (getMetrics api (Candidate.symbol c))";
        cases "getAnalystSentiment api (Candidate.symbol c)")
       (auto simp: enrich_one_def passes_filters_def kept_without_ratio_def Some js_le_cases js_gt_NaN)
qed

lemma finite_price_ratio:
  assumes "is_finite (Candidate.price c)"
  shows "\<not> kept_without_ratio api c"
proof (cases "getTargetPrice api (Candidate.symbol c)")
  case None
  then show ?thesis
    by (simp add: kept_without_ratio_def)
next
  case (Some t)
  from getTargetPrice_positive[OF Some] have "num_truthy t" "js_gt t (Fin 0)"
    by simp_all
  then have "js_div t (Candidate.price c) \<noteq> NaN"
    using assms by (rule js_div_not_NaN)
  then show ?thesis
    by (simp add: kept_without_ratio_def Some)
qed

lemma example_unpriced_kept:
  "filter (\<lambda>c. passes_filters example_unpriced_fmp c \<or> kept_without_ratio example_unpriced_fmp c)
     example_unpriced = [example_unpriced ! 0, example_unpriced ! 1]"
  "\<not> passes_filters example_unpriced_fmp (example_unpriced ! 1)"
  by code_simp+

section \<open>Claims about the enrichment pipeline\<close>

text \<open>
  C1. Whenever the screener answers with an array of candidates,
  \<^verbatim>\<open>fetchUndervaluedStocks\<close> returns, and its output, read by symbol, company name and
  price, is the screener's array in the same order restricted to two kinds of candidate:
  those that pass the filters (not flagged as ETF or fund, a target price that is not
  null, target price divided by price above 1.5, analyst sentiment that is not
  \<^verbatim>\<open>false\<close>, and P/E, P/B and debt-to-equity of type number), and those that meet
  every condition but the one on the ratio and whose ratio is NaN. The guard of the loop
  skips a candidate when the ratio is at most 1.5, which a NaN ratio is not. When every
  price is a finite number no ratio is NaN, and the output is the passing candidates
  alone.
\<close>

theorem C1_enrichment_output:
  assumes "company_screener api (screenerUrl api screenerOptions) = Resolved (Some data)"
  shows "\<exists>out. fetchUndervaluedStocks api screenerOptions = Inr out
           \<and> map (\<lambda>s. (Stock.symbol s, Stock.companyName s, Stock.price s)) out
             = map (\<lambda>c. (Candidate.symbol c, Candidate.companyName c, Candidate.price c))
                 (filter (\<lambda>c. passes_filters api c \<or> kept_without_ratio api c) data)
           \<and> ((\<forall>c\<in>set data. is_finite (Candidate.price c)) \<longrightarrow>
                map (\<lambda>s. (Stock.symbol s, Stock.companyName s, Stock.price s)) out
                  = map (\<lambda>c. (Candidate.symbol c, Candidate.companyName c, Candidate.price c))
                      (filter (passes_filters api) data))"
proof -
  let ?f = "filter (\<lambda>s. \<not> isEtf s \<and> \<not> isFund s) data"
  let ?kept = "\<lambda>c. passes_filters api c \<or> kept_without_ratio api c"
  have out: "fetchUndervaluedStocks api screenerOptions = Inr (List.map_filter (enrich_one api) ?f)"
    by (simp add: fetchUndervaluedStocks_def assms enrich_map_filter)
  have "filter (\<lambda>c. enrich_one api c \<noteq> None) ?f = filter ?kept data"
    by (rule filter_filter_cong) (simp add: kept_iff)
  then have m: "map (\<lambda>s. (Stock.symbol s, Stock.companyName s, Stock.price s))
               (List.map_filter (enrich_one api) ?f)
             = map (\<lambda>c. (Candidate.symbol c, Candidate.companyName c, Candidate.price c))
                 (filter ?kept data)"
    using map_filter_as_map[of "enrich_one api"
            "\<lambda>s. (Stock.symbol s, Stock.companyName s, Stock.price s)"
            "\<lambda>c. (Candidate.symbol c, Candidate.companyName c, Candidate.price c)" ?f]
          enrich_one_fields
    by simp
  have "filter ?kept data = filter (passes_filters api) data"
    if "\<forall>c\<in>set data. is_finite (Candidate.price c)"
    by (rule filter_cong) (use that finite_price_ratio in auto)
  with out m show ?thesis
    by simp
qed

text \<open>
  With \<open>NOP\<close> listed without a price and a target price of 160, the output has \<open>NOP\<close>
  after \<open>ABC\<close>, although \<open>NOP\<close> does not pass the filters. With the three priced
  candidates of the first example the output is \<open>ABC\<close> alone.
\<close>

theorem C1_enrichment_output_witness:
  "(\<exists>out. fetchUndervaluedStocks example_unpriced_fmp [] = Inr out
       \<and> map (\<lambda>s. (Stock.symbol s, Stock.companyName s, Stock.price s)) out
         = [(''ABC'', ''ABC Corp'', Fin 100), (''NOP'', ''No Price Inc'', NaN)])
   \<and> \<not> passes_filters example_unpriced_fmp (example_unpriced ! 1)
   \<and> (\<exists>out. fetchUndervaluedStocks example_fmp [] = Inr out
       \<and> map (\<lambda>s. (Stock.symbol s, Stock.companyName s, Stock.price s)) out
         = [(''ABC'', ''ABC Corp'', Fin 100)])"
proof -
  have 1: "company_screener example_unpriced_fmp (screenerUrl example_unpriced_fmp [])
             = Resolved (Some example_unpriced)"
    by (simp add: example_unpriced_fmp_def)
  from C1_enrichment_output[OF 1] obtain out where
    out: "fetchUndervaluedStocks example_unpriced_fmp [] = Inr out"
    and m: "map (\<lambda>s. (Stock.symbol s, Stock.companyName s, Stock.price s)) out
              = map (\<lambda>c. (Candidate.symbol c, Candidate.companyName c, Candidate.price c))
                  (filter (\<lambda>c. passes_filters example_unpriced_fmp c
                               \<or> kept_without_ratio example_unpriced_fmp c) example_unpriced)"
    by blast
  have "map (\<lambda>c. (Candidate.symbol c, Candidate.companyName c, Candidate.price c))
          [example_unpriced ! 0, example_unpriced ! 1]
        = [(''ABC'', ''ABC Corp'', Fin 100), (''NOP'', ''No Price Inc'', NaN)]"
    by (simp add: example_unpriced_def)
  with m have lst: "map (\<lambda>s. (Stock.symbol s, Stock.companyName s, Stock.price s)) out
                 = [(''ABC'', ''ABC Corp'', Fin 100), (''NOP'', ''No Price Inc'', NaN)]"
    by (simp only: example_unpriced_kept(1))
  have 2: "company_screener example_fmp (screenerUrl example_fmp [])
             = Resolved (Some example_candidates)"
    by (simp add: example_fmp_def)
  have fin: "\<forall>c\<in>set example_candidates. is_finite (Candidate.price c)"
    by (simp add: example_candidates_def is_finite_def)
  from C1_enrichment_output[OF 2] fin obtain out' where
    out': "fetchUndervaluedStocks example_fmp [] = Inr out'"
    and m': "map (\<lambda>s. (Stock.symbol s, Stock.companyName s, Stock.price s)) out'
              = map (\<lambda>c. (Candidate.symbol c, Candidate.companyName c, Candidate.price c))
                  (filter (passes_filters example_fmp) example_candidates)"
    by blast
  have "map (\<lambda>c. (Candidate.symbol c, Candidate.companyName c, Candidate.price c))
          [hd example_candidates] = [(''ABC'', ''ABC Corp'', Fin 100)]"
    by (simp add: example_candidates_def)
  with m' have lst': "map (\<lambda>s. (Stock.symbol s, Stock.companyName s, Stock.price s)) out'
                 = [(''ABC'', ''ABC Corp'', Fin 100)]"
    by (simp only: example_passing)
  show ?thesis
    by (intro conjI exI[of _ out] exI[of _ out'])
       (rule out, rule lst, rule example_unpriced_kept(2), rule out', rule lst')
qed

text \<open>
  C9. The RSI fetcher returns null for every symbol, and every record that
  \<^verbatim>\<open>fetchUndervaluedStocks\<close> returns has \<open>rsi\<close> equal to 50.
\<close>

theorem C9_rsi_is_50:
  assumes "fetchUndervaluedStocks api screenerOptions = Inr out" and "s \<in> set out"
  shows "getRsi (Stock.symbol s) = None \<and> rsi s = Fin 50"
proof -
  from assms obtain data where
    "s \<in> set (List.map_filter (enrich_one api) (filter (\<lambda>s. \<not> isEtf s \<and> \<not> isFund s) data))"
    by (auto simp: fetchUndervaluedStocks_def enrich_map_filter
             split: response.splits option.splits)
  then obtain c where "enrich_one api c = Some s"
    by (auto simp: List.map_filter_def)
  then show ?thesis
    using enrich_one_fields by (simp add: getRsi_def)
qed

theorem C9_rsi_is_50_witness:
  "\<exists>s. fetchUndervaluedStocks example_fmp [] = Inr [s]
     \<and> getRsi (Stock.symbol s) = None \<and> rsi s = Fin 50"
proof -
  obtain s where s: "enrich_one example_fmp (hd example_candidates) = Some s"
    using example_enriched_Some by blast
  have out: "fetchUndervaluedStocks example_fmp [] = Inr [s]"
    by (simp add: example_enriched s)
  show ?thesis
    using C9_rsi_is_50[OF out, of s] out by simp
qed

section \<open>Claims about the query parameters\<close>

lemma map_of_set_property:
  "map_of (set_property ob k v) k' = (if k' = k then Some v else map_of ob k')"
  by (induction ob) auto

lemma keys_set_property:
  "map fst (set_property ob k v) = (if k \<in> fst ` set ob then map fst ob else map fst ob @ [k])"
proof (induction ob)
  case Nil
  show ?case by simp
next
  case (Cons p ob)
  obtain k' v' where p: "p = (k', v')" by (cases p)
  show ?case
  proof (cases "k' = k")
    case True
    then show ?thesis by (simp add: p)
  next
    case False
    then show ?thesis by (simp add: p Cons.IH)
  qed
qed

lemma fst_set_property:
  "fst ` set (set_property ob k v) = insert k (fst ` set ob)"
proof -
  have "fst ` set (set_property ob k v) = set (map fst (set_property ob k v))"
    by simp
  also have "\<dots> = insert k (fst ` set ob)"
    unfolding keys_set_property by auto
  finally show ?thesis .
qed

lemma map_of_spread:
  "distinct (map fst b) \<Longrightarrow>
     map_of (spread a b) k = (case map_of b k of Some v \<Rightarrow> Some v | None \<Rightarrow> map_of a k)"
  unfolding spread_def
proof (induction b arbitrary: a)
  case Nil
  show ?case by simp
next
  case (Cons p b)
  obtain k1 v1 where p: "p = (k1, v1)" by (cases p)
  from Cons.prems have d: "distinct (map fst b)" and n: "k1 \<notin> fst ` set b"
    by (simp_all add: p)
  from n have "map_of b k1 = None"
    by (simp add: map_of_eq_None_iff)
  then show ?case
    by (simp add: p Cons.IH[OF d] map_of_set_property split: option.split)
qed

lemma keys_spread:
  "fst ` set (spread a b) = fst ` set a \<union> fst ` set b"
  unfolding spread_def
proof (induction b arbitrary: a)
  case Nil
  show ?case by simp
next
  case (Cons p b)
  show ?case
    by (cases p) (simp add: Cons.IH fst_set_property)
qed

text \<open>
  C3. For an options object (its keys distinct), the merge of \<^verbatim>\<open>buildQueryParams\<close>
  gives every key the caller supplies the caller's value; the keys
  \<^verbatim>\<open>isActivelyTrading\<close>, \<^verbatim>\<open>limit\<close> and \<^verbatim>\<open>exchange\<close>, when the caller does not supply them,
  have the defaults true, 400 and NASDAQ; and the merged object has the default keys and
  the caller's keys, no others.
\<close>

theorem C3_caller_overrides_defaults:
  assumes "distinct (map fst params)"
  shows "(\<forall>key val. map_of params key = Some val \<longrightarrow> map_of (finalParams params) key = Some val)
       \<and> (map_of params ''isActivelyTrading'' = None
            \<longrightarrow> map_of (finalParams params) ''isActivelyTrading'' = Some (VBool True))
       \<and> (map_of params ''limit'' = None
            \<longrightarrow> map_of (finalParams params) ''limit'' = Some (VNum (Fin 400)))
       \<and> (map_of params ''exchange'' = None
            \<longrightarrow> map_of (finalParams params) ''exchange'' = Some (VStr ''NASDAQ''))
       \<and> set (map fst (finalParams params))
            = {''isActivelyTrading'', ''limit'', ''exchange''} \<union> set (map fst params)"
proof -
  have keys: "set (map fst (finalParams params))
                = {''isActivelyTrading'', ''limit'', ''exchange''} \<union> set (map fst params)"
    by (simp add: finalParams_def keys_spread defaultParams_def)
  have m: "map_of (finalParams params) k
             = (case map_of params k of Some v \<Rightarrow> Some v | None \<Rightarrow> map_of defaultParams k)" for k
    by (simp add: finalParams_def map_of_spread[OF assms])
  show ?thesis
    using keys by (simp add: m defaultParams_def)
qed

lemma example_query_string:
  "buildQueryParams [(''limit'', VNum (Fin 50)), (''isEtf'', VBool False)]
     = ''isActivelyTrading=true&limit=50&exchange=NASDAQ&isEtf=false''"
  by code_simp

theorem C3_caller_overrides_defaults_witness:
  "map_of (finalParams [(''limit'', VNum (Fin 50)), (''isEtf'', VBool False)]) ''limit''
     = Some (VNum (Fin 50))
   \<and> map_of (finalParams [(''limit'', VNum (Fin 50)), (''isEtf'', VBool False)]) ''exchange''
     = Some (VStr ''NASDAQ'')
   \<and> buildQueryParams [(''limit'', VNum (Fin 50)), (''isEtf'', VBool False)]
     = ''isActivelyTrading=true&limit=50&exchange=NASDAQ&isEtf=false''"
  using C3_caller_overrides_defaults[of "[(''limit'', VNum (Fin 50)), (''isEtf'', VBool False)]"]
  by (simp add: example_query_string)







section \<open>Claims about the notifier\<close>

lemma status_message_404: "''Request failed with status code '' @ dec 404
  = ''Request failed with status code 404''"
  by code_simp

text \<open>
  C7. For a non-empty list \<^verbatim>\<open>notifyDiscord\<close> ends in one of three ways. When no
  response arrives, it logs the failure and throws the error on to its caller. When a
  response arrives with a status outside 200..299, the library has rejected the promise,
  so the function logs a failure and throws as well: the test of the status is not
  reached. When a response arrives with a status in 200..299, the function returns
  normally, with a warning in the log unless the status is 200 or 201.
\<close>

theorem C7_delivery_outcomes:
  assumes "topStocks \<noteq> []"
      and "deliver d (''https://discord.com/api/v10/channels/'' @ DISCORD_CHANNEL_ID d @ ''/messages'')
             (payload topStocks) (''Bot '' @ DISCORD_BOT_TOKEN d) = r"
  shows "(case r of
            NoResponse err \<Rightarrow>
              notifyDiscord d topStocks = ([ErrorSendFailed err], Inl (AxiosError err))
          | Response status \<Rightarrow>
              if 200 \<le> status \<and> status < 300
              then notifyDiscord d topStocks
                     = ([if status = 200 \<or> status = 201 then LogSent else WarnUnexpectedStatus status],
                        Inr ())
              else notifyDiscord d topStocks
                     = ([ErrorSendFailed (''Request failed with status code '' @ dec (int status))],
                        Inl (AxiosError (''Request failed with status code '' @ dec (int status)))))"
  using assms by (auto simp: notifyDiscord_def axios_post_def split: delivery.split)

theorem C7_delivery_outcomes_witness:
  "notifyDiscord (discord_answering (Response 404)) example_scored
     = ([ErrorSendFailed ''Request failed with status code 404''],
        Inl (AxiosError ''Request failed with status code 404''))
   \<and> notifyDiscord (discord_answering (Response 204)) example_scored
     = ([WarnUnexpectedStatus 204], Inr ())
   \<and> notifyDiscord (discord_answering (NoResponse ''socket hang up'')) example_scored
     = ([ErrorSendFailed ''socket hang up''], Inl (AxiosError ''socket hang up''))"
proof -
  have ne: "example_scored \<noteq> []"
    by (simp add: example_scored_def)
  have d: "deliver (discord_answering r) url body auth = r" for r url body auth
    by (simp add: discord_answering_def)
  show ?thesis
    using C7_delivery_outcomes[OF ne d, of "Response 404"]
          C7_delivery_outcomes[OF ne d, of "Response 204"]
          C7_delivery_outcomes[OF ne d, of "NoResponse ''socket hang up''"]
          status_message_404
    by simp
qed

section \<open>The regular expression of the scoring service\<close>

lemma not_ws_brackets [simp]:
  "\<not> is_ws CHR ''}''" "\<not> is_ws CHR '']''" "\<not> is_ws CHR ''{''" "\<not> is_ws CHR ''[''"
  by (simp_all add: is_ws_def)













lemma example_bare_match: "regex_match example_bare_content = Some example_bare_array"
  by code_simp


lemma example_contents_nonempty:
  "example_content \<noteq> []" "example_draft_content \<noteq> []" "example_bare_content \<noteq> []"
  by (simp_all add: example_content_def example_draft_content_def example_bare_content_def)


section \<open>Claims about the scoring service\<close>





text \<open>
  C10. \<^verbatim>\<open>scoreAndExplain\<close> checks no shape: when the match parses, the parsed value is
  returned also when it is not an array of objects with a string symbol, a numeric score
  and a string explanation.
\<close>

theorem C10_no_schema_validation:
  assumes "create stocks = Resolved res" and "response_content res = Some c"
      and "regex_match c = Some m" and "JSON_parse m = Some v"
      and "\<not> is_ScoredStock_array v"
  shows "scoreAndExplain create JSON_parse stocks = Inr v"
  using assms
  by (auto simp: scoreAndExplain_def response_content_def
           split: list.splits option.splits if_splits)

theorem C10_no_schema_validation_witness:
  "scoreAndExplain (\<lambda>stocks. Resolved (completion example_bare_content)) example_JSON_parse []
     = Inr example_bare_parsed
   \<and> \<not> is_ScoredStock_array example_bare_parsed"
proof -
  have c: "response_content (completion example_bare_content) = Some example_bare_content"
    by (simp add: response_content_def completion_def example_contents_nonempty)
  have p: "example_JSON_parse example_bare_array = Some example_bare_parsed"
    by (simp add: example_JSON_parse_def example_array_def example_bare_array_def)
  have n: "\<not> is_ScoredStock_array example_bare_parsed"
    by (simp add: example_bare_parsed_def)
  show ?thesis
    using C10_no_schema_validation
            [of "\<lambda>stocks. Resolved (completion example_bare_content)" "[]"
                "completion example_bare_content" example_bare_content example_bare_array
                example_JSON_parse example_bare_parsed]
          c p n example_bare_match
    by simp
qed

section \<open>Sorting by score\<close>

lemma js_le_trans: "js_le a b \<Longrightarrow> js_le b c \<Longrightarrow> js_le a c"
  by (cases a; cases b; cases c) (simp_all add: js_le_def)

lemma js_lt_imp_le: "js_lt a b \<Longrightarrow> js_le a b"
  by (cases a; cases b) (simp_all add: js_le_def)

lemma not_js_lt_imp_le: "a \<noteq> NaN \<Longrightarrow> b \<noteq> NaN \<Longrightarrow> \<not> js_lt a b \<Longrightarrow> js_le b a"
  by (simp add: js_le_def)

lemma set_insert_by: "set (insert_by cmp x ys) = insert x (set ys)"
  by (induction ys) auto

lemma mset_insert_by: "mset (insert_by cmp x ys) = add_mset x (mset ys)"
  by (induction ys) auto

lemma mset_Array_sort: "mset (Array_sort cmp xs) = mset xs"
  unfolding Array_sort_def by (induction xs) (simp_all add: mset_insert_by)

lemma set_Array_sort: "set (Array_sort cmp xs) = set xs"
  using mset_Array_sort[of cmp xs] by (metis set_mset_mset)

lemma descending_insert_by:
  assumes "well_scored x" "\<forall>y\<in>set ys. well_scored y" "descending ys"
  shows "descending (insert_by by_score x ys)"
  using assms(2,3)
proof (induction ys)
  case Nil
  show ?case by (simp add: descending_def)
next
  case (Cons y ys)
  from Cons.prems have y: "well_scored y" and ys: "\<forall>z\<in>set ys. well_scored z"
    and above: "\<forall>z\<in>set ys. js_le (score z) (score y)" and d: "descending ys"
    by (simp_all add: descending_def)
  have behind: "js_gt (by_score x y) (Fin 0) = js_lt (score x) (score y)"
    using assms(1) y unfolding by_score_def well_scored_def by (intro js_sub_gt_iff) simp_all
  show ?case
  proof (cases "js_lt (score x) (score y)")
    case True
    have "descending (insert_by by_score x ys)"
      by (rule Cons.IH[OF ys d])
    moreover have "js_le (score x) (score y)"
      using True by (rule js_lt_imp_le)
    ultimately show ?thesis
      using True above by (simp add: behind descending_def set_insert_by)
  next
    case False
    have xy: "js_le (score y) (score x)"
      using assms(1) y False unfolding well_scored_def by (intro not_js_lt_imp_le) simp_all
    have "js_le (score z) (score x)" if "z \<in> set ys" for z
      using above that xy js_le_trans by blast
    then show ?thesis
      using False xy Cons.prems(2) by (simp add: behind descending_def)
  qed
qed

lemma descending_Array_sort:
  "\<forall>s\<in>set xs. well_scored s \<Longrightarrow> descending (Array_sort by_score xs)"
proof (induction xs)
  case Nil
  show ?case by (simp add: Array_sort_def descending_def)
next
  case (Cons x xs)
  then have "descending (Array_sort by_score xs)" by simp
  moreover have "\<forall>y\<in>set (Array_sort by_score xs). well_scored y"
    using Cons.prems by (simp add: set_Array_sort)
  moreover have "well_scored x"
    using Cons.prems by simp
  ultimately have "descending (insert_by by_score x (Array_sort by_score xs))"
    by (intro descending_insert_by)
  then show ?case
    by (simp add: Array_sort_def)
qed

lemma example_scored_well: "\<forall>s\<in>set example_scored. well_scored s"
  by code_simp

lemma example_top3:
  "runBot (\<lambda>params. Inr []) (\<lambda>stocks. Inr example_scored) (\<lambda>top3. Inr ()) []
     = Inr [example_scored ! 1, example_scored ! 3, example_scored ! 0]"
  by code_simp


section \<open>Claims about the final ranking\<close>

text \<open>
  C5. Whatever list the scoring service returns, if its scores are numbers other than
  NaN then the result of \<^verbatim>\<open>runBot\<close> has at most three elements (three, or all of them
  when there are fewer), is in descending order of score, and consists of elements of the
  list none of which is outscored by an element left out.
\<close>

theorem C5_top3_sorted:
  assumes "runBot fetch scoreAndExplain' notify params = Inr top3"
      and "fetch params = Inr stocks" and "scoreAndExplain' stocks = Inr scored"
      and "\<forall>s\<in>set scored. well_scored s"
  shows "length top3 \<le> 3 \<and> length top3 = min 3 (length scored)
       \<and> descending top3
       \<and> (\<exists>rest. mset (top3 @ rest) = mset scored
             \<and> (\<forall>t\<in>set top3. \<forall>r\<in>set rest. js_le (score r) (score t)))"
proof -
  let ?sorted = "Array_sort by_score scored"
  have top3: "top3 = take 3 ?sorted"
    using assms(1-3)
    by (auto simp: runBot_def slice0_def Let_def split: sum.splits)
  have d: "descending ?sorted"
    by (rule descending_Array_sort[OF assms(4)])
  have len: "length ?sorted = length scored"
    using mset_Array_sort[of by_score scored] by (metis size_mset)
  have split: "?sorted = top3 @ drop 3 ?sorted"
    by (simp add: top3)
  have "descending (top3 @ drop 3 ?sorted)"
    using d split by simp
  then have 1: "descending top3"
    and 2: "\<forall>t\<in>set top3. \<forall>r\<in>set (drop 3 ?sorted). js_le (score r) (score t)"
    by (simp_all add: descending_def sorted_wrt_append)
  have 3: "mset (top3 @ drop 3 ?sorted) = mset scored"
    using split mset_Array_sort[of by_score scored] by simp
  have 4: "\<exists>rest. mset (top3 @ rest) = mset scored
             \<and> (\<forall>t\<in>set top3. \<forall>r\<in>set rest. js_le (score r) (score t))"
    using 2 3 by blast
  have 5: "length top3 = min 3 (length scored)"
    by (simp add: top3 len)
  show ?thesis
    using 1 4 5 by simp
qed


theorem C5_top3_sorted_witness:
  "runBot (\<lambda>params. Inr []) (\<lambda>stocks. Inr example_scored) (\<lambda>top3. Inr ()) []
     = Inr [example_scored ! 1, example_scored ! 3, example_scored ! 0]
   \<and> descending [example_scored ! 1, example_scored ! 3, example_scored ! 0]
   \<and> map ScoredStock.symbol [example_scored ! 1, example_scored ! 3, example_scored ! 0]
     = [''BBB'', ''DDD'', ''AAA'']"
  using C5_top3_sorted[OF example_top3 refl refl example_scored_well] example_top3
  by (simp add: example_scored_def)

section \<open>Claims about the derived insights\<close>











lemma eps_of_2005: "StringToNumber (toFixed (to_double (401 / 200)) 2) = Fin 2"
  by code_simp

lemma double_2005: "to_double (401 / 200) = Fin (2257429313219461 / 1125899906842624)"
  by code_simp

lemma double_201: "to_double (201 / 100) = Fin (1131529406376837 / 562949953421312)"
  by code_simp

text \<open>
  C8, amended. The number that the literal 2.005 denotes is the binary64 value nearest to
  2.005, which lies below it; for a raw estimate with this \<^verbatim>\<open>epsAvg\<close> the derived
  insights have \<open>eps\<close> equal to 2, as \<^verbatim>\<open>toFixed(2)\<close> writes it \<open>2.00\<close>.
\<close>

theorem C8_eps_of_2005:
  "to_double (401 / 200) = Fin (2257429313219461 / 1125899906842624)
   \<and> (2257429313219461 / 1125899906842624 :: rat) < 401 / 200
   \<and> eps (extractKeyInsights (data\<lparr>RawStockData.epsAvg := to_double (401 / 200)\<rparr>)) = Fin 2"
proof (intro conjI)
  show "to_double (401 / 200) = Fin (2257429313219461 / 1125899906842624)"
    by (rule double_2005)
  show "(2257429313219461 / 1125899906842624 :: rat) < 401 / 200"
    by simp
  show "eps (extractKeyInsights (data\<lparr>RawStockData.epsAvg := to_double (401 / 200)\<rparr>)) = Fin 2"
    by (simp add: extractKeyInsights_def Let_def eps_of_2005)
qed

theorem C8_eps_of_2005_witness:
  "eps (extractKeyInsights (example_raw\<lparr>RawStockData.epsAvg := to_double (401 / 200)\<rparr>)) = Fin 2"
  using C8_eps_of_2005[of example_raw] by blast

text \<open>
  C8 as stated fails: with \<^verbatim>\<open>epsAvg\<close> the number 2.005, \<open>eps\<close> is 2 and not the number
  2.01.
\<close>

theorem C8_eps_counterexample:
  "eps (extractKeyInsights (example_raw\<lparr>RawStockData.epsAvg := to_double (401 / 200)\<rparr>)) = Fin 2
   \<and> Fin 2 \<noteq> to_double (201 / 100)"
proof (intro conjI)
  show "eps (extractKeyInsights (example_raw\<lparr>RawStockData.epsAvg := to_double (401 / 200)\<rparr>)) = Fin 2"
    by (simp add: extractKeyInsights_def Let_def eps_of_2005)
  show "Fin 2 \<noteq> to_double (201 / 100)"
    by (simp add: double_201)
qed

end
